theory Spec2Isabelle
  imports Complex_Main
begin

section \<open>Cluster marker style (makeClusterStyle and styleCache)\<close>

text \<open>
  The point features built by the cluster-layer effect carry a \<open>count\<close> property; a
  cluster feature produced by the clustering source carries the list of its members under
  \<open>features\<close>. Both reads in \<open>makeClusterStyle\<close> are optional-chained, so both
  properties may be absent. Counts are whole numbers (JavaScript numbers holding integers).
\<close>

record pointFeature =
  geometry :: "real \<times> real"
  count :: "int option"

record clusterFeature =
  features :: "pointFeature list option"

text \<open>
  A style object: its identity \<open>sid\<close> (two results of \<open>new Style\<close> are different objects,
  whatever their fields) and the fields of
  \<open>new Style({image: new CircleStyle({...}), text: new TextStyle({...})})\<close>.
\<close>

record style =
  sid :: nat
  radius :: real
  stroke_color :: string
  stroke_width :: nat
  lineDash :: "real list"
  lineCap :: string
  fill_color :: string
  text_text :: string
  text_fill :: string

text \<open>
  The state of the module: the object \<open>styleCache\<close>, from keys to style objects, and the
  number of style objects constructed so far, which is the identity of the next one.
\<close>

record styleModule =
  styleCache :: "string \<rightharpoonup> style"
  constructed :: nat

text \<open>
  \<open>String(size)\<close> on an integer (the variable \<open>size\<close> of the source is \<open>n\<close> below):
  its decimal digits, with a minus sign when negative.
\<close>

definition digit_char :: "nat \<Rightarrow> char" where
  "digit_char d = ''0123456789'' ! d"

fun nat_digits :: "nat \<Rightarrow> string" where
  "nat_digits n = (if n < 10 then [digit_char n] else nat_digits (n div 10) @ [digit_char (n mod 10)])"

definition String :: "int \<Rightarrow> string" where
  "String i = (if i < 0 then CHR ''-'' # nat_digits (nat (- i)) else nat_digits (nat i))"

text \<open>\<open>(feature as any).get("features")?.[0]\<close>\<close>

definition first_member :: "clusterFeature \<Rightarrow> pointFeature option" where
  "first_member feature =
     (case features feature of None \<Rightarrow> None | Some [] \<Rightarrow> None | Some (f # _) \<Rightarrow> Some f)"

text \<open>\<open>first?.get?.("count")\<close>, with \<open>!size\<close> (undefined or 0) mapped to \<open>None\<close>.\<close>

definition cluster_size :: "clusterFeature \<Rightarrow> int option" where
  "cluster_size feature =
     (case first_member feature of
        None \<Rightarrow> None
      | Some first \<Rightarrow>
          (case count first of None \<Rightarrow> None | Some n \<Rightarrow> if n = 0 then None else Some n))"

text \<open>The colour triples of the three buckets, as the source writes them.\<close>

definition red :: string where "red = ''192,0,0''"
definition orange :: string where "orange = ''255,128,0''"
definition green :: string where "green = ''0,128,0''"

text \<open>
  The part of \<open>makeClusterStyle\<close> after the cache lookup: the new style object, with the
  identity it is given.
\<close>

definition newStyle :: "nat \<Rightarrow> int \<Rightarrow> style" where
  "newStyle i n =
     (let color = (if n > 25 then red else if n > 8 then orange else green);
          radius = max 8 (min (real_of_int n * 0.75) 20);
          lineDash = (replicate 7 ((2 * pi * radius) / 6))[0 := 0]
      in \<lparr> sid = i,
           radius = radius,
           stroke_color = ''rgba('' @ color @ '',0.5)'',
           stroke_width = 15,
           lineDash = lineDash,
           lineCap = ''butt'',
           fill_color = ''rgba('' @ color @ '',1)'',
           text_text = String n,
           text_fill = ''#fff'' \<rparr>)"

text \<open>
  \<open>makeClusterStyle\<close> reads and writes the module-level \<open>styleCache\<close>; the model passes
  the module state in and returns it. A hit returns the cached object itself and constructs
  nothing; a miss constructs one object and stores it. \<open>None\<close> is the \<open>undefined\<close> the
  source returns.
\<close>

definition makeClusterStyle :: "clusterFeature \<Rightarrow> styleModule \<Rightarrow> style option \<times> styleModule" where
  "makeClusterStyle feature md =
     (case cluster_size feature of
        None \<Rightarrow> (None, md)
      | Some n \<Rightarrow>
          (let key = String n in
           case styleCache md key of
             Some cached \<Rightarrow> (Some cached, md)
           | None \<Rightarrow>
               (let style = newStyle (constructed md) n
                in (Some style, md\<lparr>styleCache := (styleCache md)(key \<mapsto> style),
                                    constructed := Suc (constructed md)\<rparr>))))"

text \<open>
  The cache is private to the module and starts empty, so the module states that can occur
  are those left by some sequence of calls from the initial one.
\<close>

definition no_styles :: styleModule where
  "no_styles = \<lparr> styleCache = Map.empty, constructed = 0 \<rparr>"

fun style_calls :: "clusterFeature list \<Rightarrow> styleModule \<Rightarrow> styleModule" where
  "style_calls [] md = md"
| "style_calls (f # fs) md = style_calls fs (snd (makeClusterStyle f md))"

section \<open>The map session, its layers and the component state\<close>

text \<open>
  A rejection value of a promise (or a thrown value): what \<open>e?.message\<close> reads and what
  \<open>String(e)\<close> gives. The catch blocks report \<open>String(e?.message || e)\<close>.
\<close>

record rejection =
  message :: "string option"
  repr :: string

definition error_text :: "rejection \<Rightarrow> string" where
  "error_text e = (case message e of None \<Rightarrow> repr e | Some msg \<Rightarrow> if msg = [] then repr e else msg)"

text \<open>Multi-polygon coordinates: polygons, each a list of rings, each a list of points.\<close>

type_synonym coordinates = "(real \<times> real) list list list"

text \<open>A feature read from the boundary payload; \<open>getGeometry()\<close> may be null.\<close>

record boundaryFeature =
  geom :: "coordinates option"

text \<open>
  \<open>new CropFilter({feature: new Feature(new MultiPolygon(coords)), wrapX: true, inner: false})\<close>.
  Filters are compared by object identity (\<open>removeFilter\<close>), which \<open>fid\<close> stands for.
\<close>

record cropFilter =
  fid :: nat
  crop_coords :: coordinates
  wrapX :: bool
  inner :: bool
  active :: bool

text \<open>
  What the component reads of a layer's source: the features of a vector source, the
  distance and the underlying features of a cluster source, and for any other source the
  \<open>LAYERS\<close> parameter (\<open>getParams?.()?.LAYERS\<close>) and the URL list (\<open>getUrls?.()\<close>),
  each absent when the source has no such method or value.
\<close>

datatype source =
    VectorSource "boundaryFeature list"
  | Cluster nat "pointFeature list"
  | UrlSource "string option" "string list option"

datatype layerStyle = DefaultStyle | POLYGON_BOUNDARY_STYLE | MakeClusterStyle

text \<open>
  A layer object. \<open>lid\<close> is its identity (\<open>removeLayer\<close> compares objects), \<open>name\<close> is
  \<open>get("name")\<close>, \<open>visible\<close> is \<open>getVisible()\<close>, \<open>filters\<close> are the filters attached
  by \<open>addFilter\<close>, in order.
\<close>

record layer =
  lid :: nat
  name :: "string option"
  visible :: bool
  source :: "source option"
  layer_style :: layerStyle
  animationDuration :: "nat option"
  filters :: "cropFilter list"

text \<open>
  Listeners of the map's \<open>singleclick\<close> event: the permanent feedback handler \<open>bound\<close>,
  and \<open>villageClickEvent\<close> callbacks, told apart by the render that created them.
\<close>

datatype listener = Bound | VillageClickEvent nat

text \<open>
  The map object: its layers (as \<open>getAllLayers()\<close> enumerates them; layer groups are not
  modelled, so this is also the collection \<open>addLayer\<close> and \<open>removeLayer\<close> work on) and
  its \<open>singleclick\<close> listeners.
\<close>

record olMap =
  layers :: "layer list"
  singleclick :: "listener list"

text \<open>
  The aggregate records of the cluster fetch (\<open>lon\<close> and \<open>lat\<close> as \<open>Number(...)\<close> reads
  them) and the rows of the boundary fetch.
\<close>

record clusterSummaryItem =
  lon :: real
  lat :: real
  item_count :: int

record boundaryRow =
  st_asgeojson :: "string option"

text \<open>A record of the point-data fetch: a JSON object, as its key-value pairs.\<close>

type_synonym sdtv = "(string \<times> string) list"

text \<open>
  What the host observes: calls of its notifier, of \<open>onPointSelected\<close> and of
  \<open>getSDTV\<close> (with the longitude and latitude of the WKT point), and the feedback
  animations started on the map.
\<close>

datatype event =
    NotifyWarn string
  | NotifyError string
  | PointSelected sdtv
  | GetSDTV "real \<times> real"
  | PulseAnimation "real \<times> real"

text \<open>
  The component: \<open>mapRef.current\<close>, the React state variables, and the events emitted so
  far. \<open>next_id\<close> allocates object identities; \<open>villageClickEvent\<close> is the identity of
  the current memoized \<open>villageClickEvent\<close> callback.
\<close>

record component =
  mapRef :: "olMap option"
  summary :: "clusterSummaryItem list"
  clusterLayer :: "layer option"
  navigationCropFilter :: "cropFilter option"
  clippedBoundary :: "layer option"
  legendUrls :: "string list"
  villageClickEvent :: nat
  next_id :: nat
  emitted :: "event list"

text \<open>
  The props the modelled functions read. \<open>notify_warn\<close>, \<open>notify_error\<close> and
  \<open>has_onPointSelected\<close> say whether the optional callbacks are supplied
  (\<open>notify?.warn?.(...)\<close>, \<open>onPointSelected?.(...)\<close>). \<open>buildLegendBlob\<close> gives how the
  promise for a legend URL settles.
\<close>

record props =
  skipClipLayerNames :: "string list"
  notify_warn :: bool
  notify_error :: bool
  has_onPointSelected :: bool
  makeLegendUrl :: "string \<Rightarrow> string \<Rightarrow> string"
  buildLegendBlob :: "string \<Rightarrow> rejection + string"

text \<open>
  The library and browser functions the component calls, taken as parameters:
  the two reprojections \<open>transform(c, "EPSG:4326", "EPSG:3857")\<close> and back,
  \<open>new GeoJSON({...}).readFeatures(JSON.parse(text))\<close> (either call may throw),
  \<open>removeFilter\<close> on a layer's filter list (\<open>None\<close> when the call throws), and
  the identifier that \<open>URL.createObjectURL\<close> puts after the \<open>blob:\<close> scheme.
\<close>

record library =
  to_3857 :: "real \<times> real \<Rightarrow> real \<times> real"
  to_4326 :: "real \<times> real \<Rightarrow> real \<times> real"
  readFeatures :: "string \<Rightarrow> rejection + boundaryFeature list"
  removeFilter :: "cropFilter option \<Rightarrow> cropFilter list \<Rightarrow> cropFilter list option"
  object_url_id :: "string \<Rightarrow> string"

subsection \<open>Map operations\<close>

definition getAllLayers :: "olMap \<Rightarrow> layer list" where
  "getAllLayers m = layers m"

definition addLayer :: "layer \<Rightarrow> olMap \<Rightarrow> olMap" where
  "addLayer l m = m\<lparr>layers := layers m @ [l]\<rparr>"

text \<open>\<open>removeLayer\<close> takes the first element that is the given object out of the collection.\<close>

fun remove_object :: "nat \<Rightarrow> layer list \<Rightarrow> layer list" where
  "remove_object i [] = []"
| "remove_object i (l # ls) = (if lid l = i then ls else l # remove_object i ls)"

definition removeLayer :: "layer \<Rightarrow> olMap \<Rightarrow> olMap" where
  "removeLayer l m = m\<lparr>layers := remove_object (lid l) (layers m)\<rparr>"

text \<open>\<open>map.on("singleclick", f)\<close> does not add a listener that is already registered.\<close>

definition on_singleclick :: "listener \<Rightarrow> olMap \<Rightarrow> olMap" where
  "on_singleclick f m = (if f \<in> set (singleclick m) then m else m\<lparr>singleclick := singleclick m @ [f]\<rparr>)"

definition un_singleclick :: "listener \<Rightarrow> olMap \<Rightarrow> olMap" where
  "un_singleclick f m = m\<lparr>singleclick := remove1 f (singleclick m)\<rparr>"

definition emit :: "event \<Rightarrow> component \<Rightarrow> component" where
  "emit ev st = st\<lparr>emitted := emitted st @ [ev]\<rparr>"

text \<open>\<open>notify?.warn?.(msg)\<close> and \<open>notify?.error?.(msg)\<close>\<close>

definition notifyWarn :: "props \<Rightarrow> string \<Rightarrow> component \<Rightarrow> component" where
  "notifyWarn p msg st = (if notify_warn p then emit (NotifyWarn msg) st else st)"

definition notifyError :: "props \<Rightarrow> string \<Rightarrow> component \<Rightarrow> component" where
  "notifyError p msg st = (if notify_error p then emit (NotifyError msg) st else st)"

section \<open>Cluster pipeline\<close>

text \<open>
  \<open>isBirthCertificateLayerVisible\<close>: the first layer named "Hospital Birth", and
  \<open>birth?.getVisible?.() || birth?.isVisible?.() || false\<close>. In the library \<open>isVisible()\<close>
  is false for a layer whose \<open>getVisible()\<close> is false, so the disjunction is
  \<open>getVisible()\<close>.
\<close>

definition isBirthCertificateLayerVisible :: "olMap \<Rightarrow> bool" where
  "isBirthCertificateLayerVisible m =
     (case find (\<lambda>l. name l = Some ''Hospital Birth'') (getAllLayers m) of
        None \<Rightarrow> False
      | Some birth \<Rightarrow> visible birth)"

text \<open>The body of the loop that builds one point feature per aggregate.\<close>

definition point_feature :: "library \<Rightarrow> clusterSummaryItem \<Rightarrow> pointFeature" where
  "point_feature lib item = \<lparr> geometry = to_3857 lib (lon item, lat item), count = Some (item_count item) \<rparr>"

text \<open>
  The effect that rebuilds the overlay (dependencies \<open>summary\<close> and
  \<open>isBirthCertificateLayerVisible\<close>), run on the component's current state.
\<close>

definition cluster_layer_effect :: "library \<Rightarrow> component \<Rightarrow> component" where
  "cluster_layer_effect lib st =
     (case mapRef st of
        None \<Rightarrow> st
      | Some m \<Rightarrow>
          (let m1 = (case find (\<lambda>l. name l = Some ''cluster-layer'') (getAllLayers m) of
                       None \<Rightarrow> m
                     | Some existing \<Rightarrow> removeLayer existing m)
           in if summary st = [] then st\<lparr>mapRef := Some m1, clusterLayer := None\<rparr>
              else
                (let feats = map (point_feature lib) (summary st);
                     layer = \<lparr> lid = next_id st,
                               name = Some ''cluster-layer'',
                               visible = True,
                               source = Some (Cluster 40 feats),
                               layer_style = MakeClusterStyle,
                               animationDuration = Some 700,
                               filters = [] \<rparr>
                 in st\<lparr>mapRef := Some (if isBirthCertificateLayerVisible m1 then addLayer layer m1 else m1),
                        clusterLayer := Some layer,
                        next_id := Suc (next_id st)\<rparr>)))"

text \<open>
  \<open>setSummary(v)\<close>: the new list becomes the state and, \<open>summary\<close> being a dependency of
  the effect above, the effect runs on it.
\<close>

definition setSummary :: "library \<Rightarrow> clusterSummaryItem list \<Rightarrow> component \<Rightarrow> component" where
  "setSummary lib v st = cluster_layer_effect lib (st\<lparr>summary := v\<rparr>)"

text \<open>
  \<open>refreshClusterSummary\<close>, given how \<open>getClusterCount()\<close> settled: rejected, or resolved
  with an array (\<open>Some\<close>) or with a value that is not an array (\<open>None\<close>).
\<close>

definition refreshClusterSummary ::
    "props \<Rightarrow> library \<Rightarrow> rejection + clusterSummaryItem list option \<Rightarrow> component \<Rightarrow> component" where
  "refreshClusterSummary p lib settled st =
     (case settled of
        Inr resp \<Rightarrow> setSummary lib (case resp of Some items \<Rightarrow> items | None \<Rightarrow> []) st
      | Inl e \<Rightarrow> notifyError p (error_text e) st)"

section \<open>Clip pipeline\<close>

text \<open>\<open>res?.[0]?.st_asgeojson || "{}"\<close>; \<open>None\<close> is a null or undefined \<open>res\<close>.\<close>

definition geojson_text :: "boundaryRow list option \<Rightarrow> string" where
  "geojson_text res =
     (case res of
        None \<Rightarrow> ''{}''
      | Some [] \<Rightarrow> ''{}''
      | Some (row # _) \<Rightarrow>
          (case st_asgeojson row of None \<Rightarrow> ''{}'' | Some t \<Rightarrow> if t = [] then ''{}'' else t))"

text \<open>
  The loop \<open>features.forEach(ft => coords = ft.getGeometry()?.getCoordinates())\<close> starting
  from \<open>coords = []\<close>: \<open>None\<close> is \<open>undefined\<close>.
\<close>

fun last_coordinates :: "boundaryFeature list \<Rightarrow> coordinates option \<Rightarrow> coordinates option" where
  "last_coordinates [] coords = coords"
| "last_coordinates (ft # fts) coords = last_coordinates fts (geom ft)"

text \<open>\<open>new MultiPolygon(undefined)\<close> throws a TypeError; the wording is the engine's.\<close>

definition multiPolygon_TypeError :: rejection where
  "multiPolygon_TypeError =
     \<lparr> message = Some ''Cannot read properties of undefined'',
       repr = ''TypeError: Cannot read properties of undefined'' \<rparr>"

text \<open>The exemption test \<open>nm && skipClipLayerNames.includes(nm)\<close>.\<close>

definition exempt :: "string list \<Rightarrow> layer \<Rightarrow> bool" where
  "exempt skip lyr = (case name lyr of None \<Rightarrow> False | Some nm \<Rightarrow> nm \<noteq> [] \<and> nm \<in> set skip)"

text \<open>
  The body of the loop over \<open>map.getAllLayers()\<close>. Every layer has the methods
  \<open>removeFilter\<close> and \<open>addFilter\<close> (the filter module puts them on the layer base
  class), so the optional calls are calls; \<open>addFilter\<close> pushes the filter onto the
  layer's list. If \<open>removeFilter\<close> throws, the \<open>catch\<close> swallows it and the layer stays
  as it is.
\<close>

definition mask_layer :: "library \<Rightarrow> string list \<Rightarrow> cropFilter option \<Rightarrow> cropFilter \<Rightarrow> layer \<Rightarrow> layer" where
  "mask_layer lib skip old crop lyr =
     (if exempt skip lyr then lyr
      else case removeFilter lib old (filters lyr) of
             None \<Rightarrow> lyr
           | Some kept \<Rightarrow> lyr\<lparr>filters := kept @ [crop]\<rparr>)"

text \<open>Step 1: \<open>clippedBoundary.getSource()?.clear()\<close> and \<open>map.removeLayer(clippedBoundary)\<close>.\<close>

definition clear_source :: "nat \<Rightarrow> layer \<Rightarrow> layer" where
  "clear_source i lyr =
     (if lid lyr = i
      then (case source lyr of
              Some (VectorSource fs) \<Rightarrow> lyr\<lparr>source := Some (VectorSource [])\<rparr>
            | _ \<Rightarrow> lyr)
      else lyr)"

definition retire_boundary :: "layer option \<Rightarrow> olMap \<Rightarrow> olMap" where
  "retire_boundary held m =
     (case held of
        None \<Rightarrow> m
      | Some boundary \<Rightarrow> removeLayer boundary (m\<lparr>layers := map (clear_source (lid boundary)) (layers m)\<rparr>))"

text \<open>
  The state variables hold layer objects, not copies: what a call does to an object shows
  in the variable that holds it. The boundary layer held in \<open>clippedBoundary\<close> has its
  source cleared by step 1; a held layer that is on the map is among the objects the loop
  over \<open>map.getAllLayers()\<close> goes through.
\<close>

definition held_cleared :: "layer option \<Rightarrow> layer option" where
  "held_cleared held = map_option (\<lambda>boundary. clear_source (lid boundary) boundary) held"

definition held_on_map :: "olMap \<Rightarrow> layer \<Rightarrow> bool" where
  "held_on_map m held = (lid held \<in> set (map lid (getAllLayers m)))"

text \<open>
  \<open>clip\<close>, given how \<open>fetchBoundary(body)\<close> settled. The result is the rejection of the
  returned promise, if any, and the component as the call leaves it: what was done before
  a throw stays done.
\<close>

definition clip ::
    "props \<Rightarrow> library \<Rightarrow> rejection + boundaryRow list option \<Rightarrow> component \<Rightarrow> rejection option \<times> component" where
  "clip p lib settled st =
     (case mapRef st of
        None \<Rightarrow> (None, st)
      | Some m \<Rightarrow>
          (let m1 = retire_boundary (clippedBoundary st) m;
               st1 = st\<lparr>mapRef := Some m1, clippedBoundary := held_cleared (clippedBoundary st)\<rparr>
           in case settled of
                Inl e \<Rightarrow> (Some e, st1)
              | Inr res \<Rightarrow>
                  (case readFeatures lib (geojson_text res) of
                     Inl e \<Rightarrow> (Some e, st1)
                   | Inr feats \<Rightarrow>
                       (let layer = \<lparr> lid = next_id st,
                                      name = Some ''navigation-boundary'',
                                      visible = True,
                                      source = Some (VectorSource feats),
                                      layer_style = POLYGON_BOUNDARY_STYLE,
                                      animationDuration = None,
                                      filters = [] \<rparr>;
                            m2 = addLayer layer m1;
                            st2 = st\<lparr>mapRef := Some m2, clippedBoundary := Some layer, next_id := Suc (next_id st)\<rparr>
                        in case last_coordinates feats (Some []) of
                             None \<Rightarrow> (Some multiPolygon_TypeError, st2)
                           | Some coords \<Rightarrow>
                               (let crop = \<lparr> fid = Suc (next_id st), crop_coords = coords,
                                              wrapX = True, inner = False, active = True \<rparr>;
                                    mask = mask_layer lib (skipClipLayerNames p)
                                             (navigationCropFilter st) crop;
                                    m3 = m2\<lparr>layers := map mask (getAllLayers m2)\<rparr>
                                in (None, st2\<lparr>mapRef := Some m3,
                                              clippedBoundary := Some (mask layer),
                                              clusterLayer := map_option
                                                (\<lambda>held. if held_on_map m2 held then mask held else held)
                                                (clusterLayer st),
                                              navigationCropFilter := Some crop,
                                              next_id := Suc (Suc (next_id st))\<rparr>))))))"

section \<open>Identify interaction\<close>

definition addIdentifyPointMode :: "component \<Rightarrow> component" where
  "addIdentifyPointMode st =
     (case mapRef st of
        None \<Rightarrow> st
      | Some m \<Rightarrow> st\<lparr>mapRef := Some (on_singleclick (VillageClickEvent (villageClickEvent st)) m)\<rparr>)"

definition handlePulseAnimation :: "real \<times> real \<Rightarrow> component \<Rightarrow> component" where
  "handlePulseAnimation coordinate st = emit (PulseAnimation coordinate) st"

text \<open>
  The \<open>villageClickEvent\<close> callback of render \<open>g\<close>, run to its end on a click at
  \<open>coordinate\<close>, given how its \<open>getSDTV\<close> call settled (\<open>None\<close>: a null response).
  Inside the callback the name \<open>villageClickEvent\<close> is the callback itself.
\<close>

definition villageClick ::
    "props \<Rightarrow> library \<Rightarrow> nat \<Rightarrow> real \<times> real \<Rightarrow> rejection + sdtv list option \<Rightarrow> component \<Rightarrow> component" where
  "villageClick p lib g coordinate settled st =
     (case mapRef st of
        None \<Rightarrow> st
      | Some _ \<Rightarrow>
          (let st1 = handlePulseAnimation coordinate st;
               st2 = emit (GetSDTV (to_4326 lib coordinate)) st1;
               st3 = (case settled of
                        Inr resp \<Rightarrow>
                          (case resp of
                             Some (r # _) \<Rightarrow> (if has_onPointSelected p then emit (PointSelected r) st2 else st2)
                           | _ \<Rightarrow> notifyWarn p ''No data found for the selected point.'' st2)
                      | Inl e \<Rightarrow> notifyError p (error_text e) st2)
           in case mapRef st3 of
                None \<Rightarrow> st3
              | Some m \<Rightarrow> st3\<lparr>mapRef := Some (un_singleclick (VillageClickEvent g) m)\<rparr>))"

text \<open>One listener of the \<open>singleclick\<close> event.\<close>

fun run_listener ::
    "props \<Rightarrow> library \<Rightarrow> real \<times> real \<Rightarrow> (nat \<Rightarrow> rejection + sdtv list option) \<Rightarrow> listener \<Rightarrow> component \<Rightarrow> component" where
  "run_listener p lib coordinate settled Bound st = handlePulseAnimation coordinate st"
| "run_listener p lib coordinate settled (VillageClickEvent g) st = villageClick p lib g coordinate (settled g) st"

text \<open>
  A click on the map: every listener registered at that moment runs, in order of
  registration; \<open>settled g\<close> is how the \<open>getSDTV\<close> call of callback \<open>g\<close> settles.
\<close>

definition click ::
    "props \<Rightarrow> library \<Rightarrow> real \<times> real \<Rightarrow> (nat \<Rightarrow> rejection + sdtv list option) \<Rightarrow> component \<Rightarrow> component" where
  "click p lib coordinate settled st =
     (case mapRef st of
        None \<Rightarrow> st
      | Some m \<Rightarrow> fold (run_listener p lib coordinate settled) (singleclick m) st)"

section \<open>Legend builder\<close>

text \<open>\<open>URL.createObjectURL(blob)\<close>: a URL of the \<open>blob:\<close> scheme.\<close>

definition createObjectURL :: "library \<Rightarrow> string \<Rightarrow> string" where
  "createObjectURL lib blob = ''blob:'' @ object_url_id lib blob"

text \<open>
  \<open>buildLegendBlob(legendUrl).then((blob) => URL.createObjectURL(blob)).catch(() => "")\<close>,
  as the value the promise resolves with.
\<close>

definition legend_promise :: "props \<Rightarrow> library \<Rightarrow> string \<Rightarrow> string" where
  "legend_promise p lib legendUrl =
     (case buildLegendBlob p legendUrl of Inr blob \<Rightarrow> createObjectURL lib blob | Inl _ \<Rightarrow> [])"

text \<open>\<open>src?.getParams?.()?.LAYERS\<close> and \<open>src?.getUrls?.()\<close>\<close>

definition source_LAYERS :: "layer \<Rightarrow> string option" where
  "source_LAYERS lyr = (case source lyr of Some (UrlSource ls us) \<Rightarrow> ls | _ \<Rightarrow> None)"

definition source_urls :: "layer \<Rightarrow> string list option" where
  "source_urls lyr = (case source lyr of Some (UrlSource ls us) \<Rightarrow> us | _ \<Rightarrow> None)"

text \<open>The loop \<open>visibles.forEach(...)\<close> that pushes onto \<open>promises\<close>.\<close>

fun push_promises :: "props \<Rightarrow> library \<Rightarrow> layer list \<Rightarrow> string list \<Rightarrow> string list" where
  "push_promises p lib [] promises = promises"
| "push_promises p lib (lyr # rest) promises =
     push_promises p lib rest
       (case source_LAYERS lyr of
          None \<Rightarrow> promises
        | Some LAYERS \<Rightarrow>
            (if LAYERS = [] then promises
             else case source_urls lyr of
                    None \<Rightarrow> promises
                  | Some [] \<Rightarrow> promises
                  | Some (url0 # _) \<Rightarrow>
                      (if url0 = [] then promises
                       else promises @ [legend_promise p lib (makeLegendUrl p url0 LAYERS)])))"

definition buildLegendsForVisibleWmsLayers :: "props \<Rightarrow> library \<Rightarrow> component \<Rightarrow> component" where
  "buildLegendsForVisibleWmsLayers p lib st =
     (case mapRef st of
        None \<Rightarrow> st
      | Some m \<Rightarrow>
          (let visibles = filter visible (getAllLayers m);
               promises = push_promises p lib visibles [];
               urls = filter (\<lambda>u. u \<noteq> []) promises
           in st\<lparr>legendUrls := urls\<rparr>))"

subsection \<open>Auxiliary notions for the style cache\<close>

text \<open>Reading a decimal numeral back, used to show that \<open>String\<close> is injective.\<close>

definition digit_val :: "char \<Rightarrow> nat" where
  "digit_val c = of_char c - 48"

definition parse_nat :: "string \<Rightarrow> nat" where
  "parse_nat s = foldl (\<lambda>a c. 10 * a + digit_val c) 0 s"

text \<open>
  The invariant of the module: every entry sits under the key of some count and is the
  style object built for that count, constructed earlier; and two entries with the same
  identity are the same entry.
\<close>

definition cache_ok :: "styleModule \<Rightarrow> bool" where
  "cache_ok md =
     ((\<forall>k s. styleCache md k = Some s \<longrightarrow>
         (\<exists>i n. k = String n \<and> s = newStyle i n \<and> i < constructed md)) \<and>
      (\<forall>k k' s s'. styleCache md k = Some s \<and> styleCache md k' = Some s' \<and> sid s = sid s'
         \<longrightarrow> k = k'))"

text \<open>A cluster feature with a single member of the given count.\<close>

definition member_of_count :: "int \<Rightarrow> clusterFeature" where
  "member_of_count n = \<lparr> features = Some [\<lparr> geometry = (0, 0), count = Some n \<rparr>] \<rparr>"

subsection \<open>Auxiliary notions for the map\<close>

text \<open>A layer whose \<open>name\<close> property is the given string.\<close>

definition named :: "string \<Rightarrow> layer \<Rightarrow> bool" where
  "named n lyr = (name lyr = Some n)"

text \<open>A list without its first element that satisfies a predicate.\<close>

fun remove_first :: "(layer \<Rightarrow> bool) \<Rightarrow> layer list \<Rightarrow> layer list" where
  "remove_first P [] = []"
| "remove_first P (l # ls) = (if P l then ls else l # remove_first P ls)"

text \<open>
  The discipline of object identities: the layers on the map are different objects, and
  every layer and every filter on the map was allocated before \<open>next_id\<close>, so an object
  created next is different from all of them.
\<close>

definition fresh_ids :: "component \<Rightarrow> bool" where
  "fresh_ids st =
     (case mapRef st of
        None \<Rightarrow> True
      | Some m \<Rightarrow>
          distinct (map lid (layers m)) \<and>
          list_all (\<lambda>l. lid l < next_id st \<and> list_all (\<lambda>f. fid f < next_id st) (filters l)) (layers m))"

text \<open>The layers on the map that are named "cluster-layer".\<close>

definition cluster_layers :: "olMap \<Rightarrow> layer list" where
  "cluster_layers m = filter (named ''cluster-layer'') (layers m)"

text \<open>The point features behind a cluster source.\<close>

definition source_points :: "layer \<Rightarrow> pointFeature list" where
  "source_points lyr = (case source lyr of Some (Cluster d fs) \<Rightarrow> fs | _ \<Rightarrow> [])"

text \<open>The layer object the rebuild effect creates in a given state.\<close>

definition new_cluster_layer :: "library \<Rightarrow> component \<Rightarrow> layer" where
  "new_cluster_layer lib st =
     \<lparr> lid = next_id st, name = Some ''cluster-layer'', visible = True,
       source = Some (Cluster 40 (map (point_feature lib) (summary st))),
       layer_style = MakeClusterStyle, animationDuration = Some 700, filters = [] \<rparr>"

text \<open>
  Inputs for the concrete evaluations below: layers as a host supplies them, a mounted
  component that has done nothing yet, two boundary payloads, a library whose reader knows
  the two payloads and throws on any other text, default props, and an aggregate record.
\<close>

definition host_layer :: "nat \<Rightarrow> string \<Rightarrow> bool \<Rightarrow> layer" where
  "host_layer i n v =
     \<lparr> lid = i, name = Some n, visible = v, source = None, layer_style = DefaultStyle,
       animationDuration = None, filters = [] \<rparr>"

definition mounted :: "layer list \<Rightarrow> nat \<Rightarrow> component" where
  "mounted ls n =
     \<lparr> mapRef = Some \<lparr> layers = ls, singleclick = [Bound] \<rparr>, summary = [], clusterLayer = None,
       navigationCropFilter = None, clippedBoundary = None, legendUrls = [],
       villageClickEvent = 0, next_id = n, emitted = [] \<rparr>"

definition empty_collection :: string where
  \<open>empty_collection = ''{"type":"FeatureCollection","features":[]}''\<close>

definition square :: coordinates where
  "square = [[[(0, 0), (0, 1), (1, 1), (1, 0), (0, 0)]]]"

definition square_geojson :: string where
  \<open>square_geojson = ''{"type":"MultiPolygon","coordinates":[[[[0,0],[0,1],[1,1],[1,0],[0,0]]]]}''\<close>

definition unsupported_type :: rejection where
  "unsupported_type =
     \<lparr> message = Some ''Unsupported GeoJSON type: undefined'',
       repr = ''Error: Unsupported GeoJSON type: undefined'' \<rparr>"

definition example_library :: library where
  "example_library =
     \<lparr> to_3857 = (\<lambda>c. c), to_4326 = (\<lambda>c. c),
       readFeatures = (\<lambda>t. if t = empty_collection then Inr []
                             else if t = square_geojson then Inr [\<lparr> geom = Some square \<rparr>]
                             else Inl unsupported_type),
       removeFilter = (\<lambda>old fs. Some (case old of None \<Rightarrow> fs | Some f \<Rightarrow> filter (\<lambda>g. fid g \<noteq> fid f) fs)),
       object_url_id = (\<lambda>blob. blob) \<rparr>"

definition example_props :: props where
  "example_props =
     \<lparr> skipClipLayerNames = [''Aerial'', ''Google''], notify_warn = True, notify_error = True,
       has_onPointSelected = True,
       makeLegendUrl = (\<lambda>src lyr. src @ ''?REQUEST=GetLegendGraphic&layer='' @ lyr @ ''&format=image/png''),
       buildLegendBlob = (\<lambda>u. Inr u) \<rparr>"

definition aggregate :: "real \<Rightarrow> real \<Rightarrow> int \<Rightarrow> clusterSummaryItem" where
  "aggregate x y n = \<lparr> lon = x, lat = y, item_count = n \<rparr>"

subsection \<open>Auxiliary notions for the clip pipeline\<close>

text \<open>The outline layer and the mask filter that \<open>clip\<close> creates in a given state.\<close>

definition outline_layer :: "component \<Rightarrow> boundaryFeature list \<Rightarrow> layer" where
  "outline_layer st feats =
     \<lparr> lid = next_id st, name = Some ''navigation-boundary'', visible = True,
       source = Some (VectorSource feats), layer_style = POLYGON_BOUNDARY_STYLE,
       animationDuration = None, filters = [] \<rparr>"

definition new_crop :: "component \<Rightarrow> coordinates \<Rightarrow> cropFilter" where
  "new_crop st coords =
     \<lparr> fid = Suc (next_id st), crop_coords = coords, wrapX = True, inner = False, active = True \<rparr>"

text \<open>The component after step 1 alone: the held boundary cleared and taken off the map.\<close>

definition boundary_retired :: "component \<Rightarrow> olMap \<Rightarrow> component" where
  "boundary_retired st m =
     st\<lparr>mapRef := Some (retire_boundary (clippedBoundary st) m),
        clippedBoundary := held_cleared (clippedBoundary st)\<rparr>"

text \<open>
  The body of the loop of a \<open>clip\<close> call that builds its mask over \<open>coords\<close>, and the
  map as the call finds it when the loop starts: the old boundary retired, the new outline
  added.
\<close>

definition clip_mask :: "props \<Rightarrow> library \<Rightarrow> component \<Rightarrow> coordinates \<Rightarrow> layer \<Rightarrow> layer" where
  "clip_mask p lib st coords =
     mask_layer lib (skipClipLayerNames p) (navigationCropFilter st) (new_crop st coords)"

definition outlined :: "component \<Rightarrow> olMap \<Rightarrow> boundaryFeature list \<Rightarrow> olMap" where
  "outlined st m feats = addLayer (outline_layer st feats) (retire_boundary (clippedBoundary st) m)"

text \<open>The fetch resolved without a payload: no rows, or a first row whose text is missing or empty.\<close>

definition absent_payload :: "boundaryRow list option \<Rightarrow> bool" where
  "absent_payload res =
     (case res of
        None \<Rightarrow> True
      | Some [] \<Rightarrow> True
      | Some (row # _) \<Rightarrow> st_asgeojson row = None \<or> st_asgeojson row = Some [])"

text \<open>Further inputs for the concrete evaluations: a layer without a name, a resolved fetch with one row, and the mask and outline built from the square.\<close>

definition unnamed_layer :: "nat \<Rightarrow> layer" where
  "unnamed_layer i =
     \<lparr> lid = i, name = None, visible = True, source = None, layer_style = DefaultStyle,
       animationDuration = None, filters = [] \<rparr>"

definition payload :: "string \<Rightarrow> rejection + boundaryRow list option" where
  "payload t = Inr (Some [\<lparr> st_asgeojson = Some t \<rparr>])"

definition square_crop :: "nat \<Rightarrow> cropFilter" where
  "square_crop i = \<lparr> fid = i, crop_coords = square, wrapX = True, inner = False, active = True \<rparr>"

definition square_outline :: "nat \<Rightarrow> layer" where
  "square_outline i =
     \<lparr> lid = i, name = Some ''navigation-boundary'', visible = True,
       source = Some (VectorSource [\<lparr> geom = Some square \<rparr>]), layer_style = POLYGON_BOUNDARY_STYLE,
       animationDuration = None, filters = [] \<rparr>"

subsection \<open>Auxiliary notions for the identify interaction\<close>

text \<open>The permanent feedback handler, as opposed to an identify callback.\<close>

definition is_bound :: "listener \<Rightarrow> bool" where
  "is_bound f = (f = Bound)"

text \<open>What the callbacks of a click leave of a listener list: each callback takes itself out.\<close>

fun unregister :: "listener \<Rightarrow> listener list \<Rightarrow> listener list" where
  "unregister Bound fs = fs"
| "unregister (VillageClickEvent g) fs = remove1 (VillageClickEvent g) fs"

text \<open>A record and a point-data fetch that resolves with it, for the concrete evaluation.\<close>

definition village_record :: sdtv where
  "village_record = [(''village'', ''Rampur''), (''district'', ''North'')]"

definition found :: "nat \<Rightarrow> rejection + sdtv list option" where
  "found g = Inr (Some [village_record])"

subsection \<open>The legend list of the specification\<close>

text \<open>
  The legend list in the words of the specification. A layer exposes a queryable layer
  identifier when its source has a non-empty \<open>LAYERS\<close> parameter, and a source URL when
  the first URL of its source is non-empty.
\<close>

definition legend_endpoint :: "layer \<Rightarrow> (string \<times> string) option" where
  "legend_endpoint lyr =
     (case (source_urls lyr, source_LAYERS lyr) of
        (Some (url # _), Some ident) \<Rightarrow> if url \<noteq> [] \<and> ident \<noteq> [] then Some (url, ident) else None
      | _ \<Rightarrow> None)"

text \<open>
  The entry of one layer: none if it lacks the identifier or the URL, none if its legend
  fetch rejects, else the object URL of the fetched image.
\<close>

definition legend_entry :: "props \<Rightarrow> library \<Rightarrow> layer \<Rightarrow> string option" where
  "legend_entry p lib lyr =
     (case legend_endpoint lyr of
        None \<Rightarrow> None
      | Some (url, ident) \<Rightarrow>
          (case buildLegendBlob p (makeLegendUrl p url ident) of
             Inl _ \<Rightarrow> None
           | Inr blob \<Rightarrow> Some (createObjectURL lib blob)))"

text \<open>One entry per visible layer that has one, in the order of the visible layers.\<close>

definition legend_entries_spec :: "props \<Rightarrow> library \<Rightarrow> layer list \<Rightarrow> string list" where
  "legend_entries_spec p lib ls = List.map_filter (legend_entry p lib) (filter visible ls)"

text \<open>A layer with a URL source and a rejection, for the concrete evaluation.\<close>

definition wms_layer :: "nat \<Rightarrow> string \<Rightarrow> bool \<Rightarrow> string option \<Rightarrow> string list option \<Rightarrow> layer" where
  "wms_layer i n v ident urls = (host_layer i n v)\<lparr>source := Some (UrlSource ident urls)\<rparr>"

definition failed_fetch :: rejection where
  "failed_fetch = \<lparr> message = Some ''Failed to fetch'', repr = ''TypeError: Failed to fetch'' \<rparr>"

subsection \<open>Allocation of object identities\<close>

text \<open>The layers are different objects, all of them and their filters allocated before \<open>n\<close>.\<close>

definition allocated :: "nat \<Rightarrow> layer list \<Rightarrow> bool" where
  "allocated n ls =
     (distinct (map lid ls) \<and>
      list_all (\<lambda>l. lid l < n \<and> list_all (\<lambda>f. fid f < n) (filters l)) ls)"

subsection \<open>Boundary payloads without a polygon\<close>

text \<open>
  Two further payloads without geometry, and a library whose reader knows them: a feature
  whose geometry is null, and a multi-polygon with no polygons.
\<close>

definition null_geometry :: string where
  \<open>null_geometry = ''{"type":"Feature","geometry":null,"properties":null}''\<close>

definition empty_multipolygon :: string where
  \<open>empty_multipolygon = ''{"type":"MultiPolygon","coordinates":[]}''\<close>

definition geometry_library :: library where
  "geometry_library =
     example_library
       \<lparr> readFeatures := (\<lambda>t. if t = empty_collection then Inr []
                               else if t = null_geometry then Inr [\<lparr> geom = None \<rparr>]
                               else if t = empty_multipolygon then Inr [\<lparr> geom = Some [] \<rparr>]
                               else Inl unsupported_type) \<rparr>"

subsection \<open>A rejected aggregate fetch\<close>

text \<open>
  Two rejections: an \<open>Error\<close> object with a message, and a thrown string (no \<open>message\<close>
  property; \<open>String(e)\<close> is the string itself). And a component that displays two
  aggregates.
\<close>

definition network_error :: rejection where
  "network_error = \<lparr> message = Some ''Network Error'', repr = ''Error: Network Error'' \<rparr>"

definition thrown_text :: rejection where
  "thrown_text = \<lparr> message = None, repr = ''timeout'' \<rparr>"

definition displayed_overlay :: layer where
  "displayed_overlay =
     \<lparr> lid = 2, name = Some ''cluster-layer'', visible = True,
       source = Some (Cluster 40 [\<lparr> geometry = (10, 20), count = Some 30 \<rparr>,
                                  \<lparr> geometry = (11, 21), count = Some 5 \<rparr>]),
       layer_style = MakeClusterStyle, animationDuration = Some 700, filters = [] \<rparr>"

definition displaying :: component where
  "displaying =
     (mounted [host_layer 0 ''Hospital Birth'' True, displayed_overlay] 3)
       \<lparr> summary := [aggregate 10 20 30, aggregate 11 21 5],
         clusterLayer := Some displayed_overlay \<rparr>"

section \<open>Properties of the cluster marker style\<close>

declare nat_digits.simps [simp del]

lemma digit_cases: "d < 10 \<Longrightarrow> d \<in> {0, 1, 2, 3, 4, 5, 6, 7, 8, 9::nat}"
  by auto

lemma digit_val_digit_char: "d < 10 \<Longrightarrow> digit_val (digit_char d) = d"
  using digit_cases [of d] by (auto simp: digit_val_def digit_char_def)

lemma parse_nat_snoc: "parse_nat (s @ [c]) = 10 * parse_nat s + digit_val c"
  by (simp add: parse_nat_def)

lemma parse_nat_digits: "parse_nat (nat_digits n) = n"
proof (induction n rule: nat_digits.induct)
  case (1 n)
  show ?case
  proof (cases "n < 10")
    case True
    then show ?thesis
      by (subst nat_digits.simps) (simp add: parse_nat_def digit_val_digit_char)
  next
    case False
    with 1 have "parse_nat (nat_digits (n div 10)) = n div 10" by simp
    with False show ?thesis
      by (subst nat_digits.simps) (simp add: parse_nat_snoc digit_val_digit_char)
  qed
qed

lemma nat_digits_inj: "nat_digits m = nat_digits n \<Longrightarrow> m = n"
  by (metis parse_nat_digits)

lemma digit_char_not_minus: "d < 10 \<Longrightarrow> digit_char d \<noteq> CHR ''-''"
proof
  assume d: "d < 10" and "digit_char d = CHR ''-''"
  with digit_cases [of d] show False by (auto simp: digit_char_def)
qed

lemma minus_notin_nat_digits: "CHR ''-'' \<notin> set (nat_digits n)"
proof (induction n rule: nat_digits.induct)
  case (1 n)
  show ?case
  proof (cases "n < 10")
    case True
    then show ?thesis
      by (subst nat_digits.simps) (simp add: digit_char_not_minus [symmetric] digit_char_not_minus)
  next
    case False
    with 1 have "CHR ''-'' \<notin> set (nat_digits (n div 10))" by simp
    moreover have "digit_char (n mod 10) \<noteq> CHR ''-''" by (rule digit_char_not_minus) simp
    ultimately show ?thesis using False
      by (subst nat_digits.simps) auto
  qed
qed

lemma String_inj: "String i = String j \<Longrightarrow> i = j"
proof -
  assume eq: "String i = String j"
  have neg_pos: "CHR ''-'' # nat_digits a \<noteq> nat_digits b" for a b
    using minus_notin_nat_digits [of b] by (metis list.set_intros(1))
  show ?thesis
  proof (cases "i < 0")
    case True
    show ?thesis
    proof (cases "j < 0")
      case True
      with \<open>i < 0\<close> eq have "nat (- i) = nat (- j)"
        by (simp add: String_def nat_digits_inj)
      with True \<open>i < 0\<close> show ?thesis by simp
    next
      case False
      with \<open>i < 0\<close> eq neg_pos show ?thesis by (simp add: String_def)
    qed
  next
    case False
    show ?thesis
    proof (cases "j < 0")
      case True
      with \<open>\<not> i < 0\<close> eq neg_pos [of "nat (- j)" "nat i"] show ?thesis by (simp add: String_def)
    next
      case False
      with \<open>\<not> i < 0\<close> eq have "nat i = nat j"
        by (simp add: String_def nat_digits_inj)
      with False \<open>\<not> i < 0\<close> show ?thesis by simp
    qed
  qed
qed

lemma cache_ok_no_styles: "cache_ok no_styles"
  by (simp add: cache_ok_def no_styles_def)

lemma sid_newStyle: "sid (newStyle i n) = i"
  by (simp add: newStyle_def Let_def)

lemma makeClusterStyle_hit:
  "cluster_size f = Some n \<Longrightarrow> styleCache md (String n) = Some s \<Longrightarrow> makeClusterStyle f md = (Some s, md)"
  by (simp add: makeClusterStyle_def)

lemma makeClusterStyle_miss:
  "cluster_size f = Some n \<Longrightarrow> styleCache md (String n) = None \<Longrightarrow>
   makeClusterStyle f md =
     (Some (newStyle (constructed md) n),
      md\<lparr>styleCache := (styleCache md)(String n \<mapsto> newStyle (constructed md) n),
         constructed := Suc (constructed md)\<rparr>)"
  by (simp add: makeClusterStyle_def Let_def)

lemma makeClusterStyle_undefined:
  "cluster_size f = None \<Longrightarrow> makeClusterStyle f md = (None, md)"
  by (simp add: makeClusterStyle_def)

lemma cache_ok_store:
  assumes ok: "cache_ok md" and miss: "styleCache md (String n) = None"
  shows "cache_ok (md\<lparr>styleCache := (styleCache md)(String n \<mapsto> newStyle (constructed md) n),
                      constructed := Suc (constructed md)\<rparr>)"
proof -
  let ?new = "newStyle (constructed md) n"
  from ok have old: "\<And>k s. styleCache md k = Some s \<Longrightarrow>
                       \<exists>i n. k = String n \<and> s = newStyle i n \<and> i < constructed md"
    and inj: "\<And>k k' s s'. styleCache md k = Some s \<Longrightarrow> styleCache md k' = Some s' \<Longrightarrow>
                 sid s = sid s' \<Longrightarrow> k = k'"
    unfolding cache_ok_def by blast+
  have older: "sid s < constructed md" if "styleCache md k = Some s" for k s
    using old [OF that] by (auto simp: sid_newStyle)
  have entries: "\<exists>i m. k = String m \<and> s = newStyle i m \<and> i < Suc (constructed md)"
    if "((styleCache md)(String n \<mapsto> ?new)) k = Some s" for k s
  proof (cases "k = String n")
    case True
    with that have "s = ?new" by simp
    with True show ?thesis by blast
  next
    case False
    with that have "styleCache md k = Some s" by simp
    from old [OF this] obtain i m where "k = String m" and "s = newStyle i m" and "i < constructed md"
      by blast
    then have "k = String m \<and> s = newStyle i m \<and> i < Suc (constructed md)" by simp
    then show ?thesis by blast
  qed
  have same: "k = k'"
    if "((styleCache md)(String n \<mapsto> ?new)) k = Some s"
      and "((styleCache md)(String n \<mapsto> ?new)) k' = Some s'" and "sid s = sid s'" for k k' s s'
  proof (cases "k = String n")
    case True
    with that(1) have s: "sid s = constructed md" by (auto simp: sid_newStyle)
    show ?thesis
    proof (cases "k' = String n")
      case True
      with \<open>k = String n\<close> show ?thesis by simp
    next
      case False
      with that(2) have "styleCache md k' = Some s'" by simp
      from older [OF this] that(3) s show ?thesis by simp
    qed
  next
    case False
    with that(1) have k: "styleCache md k = Some s" by simp
    show ?thesis
    proof (cases "k' = String n")
      case True
      with that(2) have "sid s' = constructed md" by (auto simp: sid_newStyle)
      with older [OF k] that(3) show ?thesis by simp
    next
      case False
      with that(2) have "styleCache md k' = Some s'" by simp
      from inj [OF k this that(3)] show ?thesis .
    qed
  qed
  let ?md' = "md\<lparr>styleCache := (styleCache md)(String n \<mapsto> ?new), constructed := Suc (constructed md)\<rparr>"
  have c: "styleCache ?md' = (styleCache md)(String n \<mapsto> ?new)" and d: "constructed ?md' = Suc (constructed md)"
    by simp_all
  show ?thesis
    unfolding cache_ok_def c d
  proof (intro conjI allI impI)
    fix k s assume "((styleCache md)(String n \<mapsto> ?new)) k = Some s"
    then show "\<exists>i m. k = String m \<and> s = newStyle i m \<and> i < Suc (constructed md)"
      by (rule entries)
  next
    fix k k' s s'
    assume "((styleCache md)(String n \<mapsto> ?new)) k = Some s
              \<and> ((styleCache md)(String n \<mapsto> ?new)) k' = Some s' \<and> sid s = sid s'"
    then show "k = k'" using same by blast
  qed
qed

lemma makeClusterStyle_cache_ok:
  assumes "cache_ok md"
  shows "cache_ok (snd (makeClusterStyle f md))"
proof (cases "cluster_size f")
  case None
  with assms show ?thesis by (simp add: makeClusterStyle_undefined)
next
  case (Some n)
  show ?thesis
  proof (cases "styleCache md (String n)")
    case None
    with Some assms show ?thesis
      by (simp add: makeClusterStyle_miss cache_ok_store)
  next
    case (Some s)
    with \<open>cluster_size f = Some n\<close> assms show ?thesis
      by (simp add: makeClusterStyle_hit)
  qed
qed

lemma style_calls_cache_ok: "cache_ok md \<Longrightarrow> cache_ok (style_calls fs md)"
  by (induction fs arbitrary: md) (simp_all add: makeClusterStyle_cache_ok)

lemma makeClusterStyle_keeps:
  "styleCache md k = Some s \<Longrightarrow> styleCache (snd (makeClusterStyle f md)) k = Some s"
  by (auto simp: makeClusterStyle_def Let_def split: option.splits)

text \<open>A call for a count: the style returned is the entry of that count afterwards.\<close>

lemma makeClusterStyle_value:
  assumes ok: "cache_ok md" and sz: "cluster_size f = Some n"
  shows "\<exists>i. fst (makeClusterStyle f md) = Some (newStyle i n)
           \<and> styleCache (snd (makeClusterStyle f md)) (String n) = Some (newStyle i n)"
proof (cases "styleCache md (String n)")
  case None
  with sz show ?thesis by (auto simp: makeClusterStyle_miss)
next
  case (Some s)
  from ok Some obtain i m where "String n = String m" and s: "s = newStyle i m"
    unfolding cache_ok_def by blast
  then have "m = n" by (simp add: String_inj)
  with s have s': "s = newStyle i n" by simp
  from sz Some have "makeClusterStyle f md = (Some s, md)" by (rule makeClusterStyle_hit)
  with Some have "fst (makeClusterStyle f md) = Some (newStyle i n)
           \<and> styleCache (snd (makeClusterStyle f md)) (String n) = Some (newStyle i n)"
    by (simp add: s')
  then show ?thesis by blast
qed

text \<open>Whatever a call returns is an entry of the cache afterwards.\<close>

lemma makeClusterStyle_returns_entry:
  "fst (makeClusterStyle f md) = Some s \<Longrightarrow> \<exists>k. styleCache (snd (makeClusterStyle f md)) k = Some s"
  by (auto simp: makeClusterStyle_def Let_def split: option.splits)

lemma cluster_size_first:
  "first_member f = Some m \<Longrightarrow> count m = Some n \<Longrightarrow> n \<noteq> 0 \<Longrightarrow> cluster_size f = Some n"
  by (simp add: cluster_size_def)

lemma newStyle_radius: "radius (newStyle i n) = max 8 (min (0.75 * real_of_int n) 20)"
  by (simp add: newStyle_def Let_def mult.commute)

lemma newStyle_fill:
  "fill_color (newStyle i n) = ''rgba('' @ (if n > 25 then red else if n > 8 then orange else green) @ '',1)''"
  by (simp add: newStyle_def Let_def)

lemma newStyle_stroke:
  "stroke_color (newStyle i n) = ''rgba('' @ (if n > 25 then red else if n > 8 then orange else green) @ '',0.5)''"
  by (simp add: newStyle_def Let_def)

text \<open>
  Claim C2. For every cluster count \<open>N \<ge> 1\<close>, whatever calls filled the cache before,
  the style returned for a cluster whose first member carries \<open>N\<close> has radius
  \<open>max 8 (min (0.75 * N) 20)\<close>, and its colour is green for \<open>0 < N \<le> 8\<close>, orange for
  \<open>8 < N \<le> 25\<close> and red for \<open>N > 25\<close>.
\<close>

theorem cluster_style_radius_and_color:
  assumes "first_member feature = Some first" and "count first = Some N" and "1 \<le> N"
  shows "\<exists>s. fst (makeClusterStyle feature (style_calls earlier no_styles)) = Some s
           \<and> radius s = max 8 (min (0.75 * real_of_int N) 20)
           \<and> (0 < N \<and> N \<le> 8 \<longrightarrow> fill_color s = ''rgba('' @ green @ '',1)'')
           \<and> (8 < N \<and> N \<le> 25 \<longrightarrow> fill_color s = ''rgba('' @ orange @ '',1)'')
           \<and> (25 < N \<longrightarrow> fill_color s = ''rgba('' @ red @ '',1)'')"
proof -
  from assms have sz: "cluster_size feature = Some N"
    by (simp add: cluster_size_first)
  have ok: "cache_ok (style_calls earlier no_styles)"
    by (simp add: style_calls_cache_ok cache_ok_no_styles)
  from makeClusterStyle_value [OF ok sz]
  obtain i where "fst (makeClusterStyle feature (style_calls earlier no_styles)) = Some (newStyle i N)"
    by blast
  then show ?thesis
    by (simp add: newStyle_radius newStyle_fill)
qed

text \<open>The boundary counts 8, 9, 25 and 26, after a call for count 30 filled the cache.\<close>

theorem cluster_style_boundaries:
  "(\<exists>s. fst (makeClusterStyle (member_of_count 8) (style_calls [member_of_count 30] no_styles)) = Some s
      \<and> radius s = 8 \<and> fill_color s = ''rgba(0,128,0,1)'')
 \<and> (\<exists>s. fst (makeClusterStyle (member_of_count 9) (style_calls [member_of_count 30] no_styles)) = Some s
      \<and> radius s = 8 \<and> fill_color s = ''rgba(255,128,0,1)'')
 \<and> (\<exists>s. fst (makeClusterStyle (member_of_count 25) (style_calls [member_of_count 30] no_styles)) = Some s
      \<and> radius s = 18.75 \<and> fill_color s = ''rgba(255,128,0,1)'')
 \<and> (\<exists>s. fst (makeClusterStyle (member_of_count 26) (style_calls [member_of_count 30] no_styles)) = Some s
      \<and> radius s = 19.5 \<and> fill_color s = ''rgba(192,0,0,1)'')"
proof -
  have m: "first_member (member_of_count n) = Some \<lparr> geometry = (0, 0), count = Some n \<rparr>" for n
    by (simp add: member_of_count_def first_member_def)
  have c: "count \<lparr> geometry = (0, 0), count = Some n \<rparr> = Some n" for n :: int
    by simp
  show ?thesis
    using cluster_style_radius_and_color [OF m c, of 8 "[member_of_count 30]"]
          cluster_style_radius_and_color [OF m c, of 9 "[member_of_count 30]"]
          cluster_style_radius_and_color [OF m c, of 25 "[member_of_count 30]"]
          cluster_style_radius_and_color [OF m c, of 26 "[member_of_count 30]"]
    by (simp add: green_def orange_def red_def)
qed

text \<open>
  Claim C8. The style function is memoized by count: for \<open>N \<ge> 1\<close>, a call on a cluster
  whose first member carries \<open>N\<close> returns a style object that is then the cache entry of
  \<open>String N\<close>. A second call on any cluster whose first member carries \<open>N\<close> returns that
  very object (the same identity, not a second object with equal fields), constructs
  nothing and leaves the cache as it is. No call changes an entry that is already present,
  and any style a later call returns is either that object or one of another identity.
\<close>

theorem cluster_style_memoized:
  assumes "first_member f1 = Some m1" and "count m1 = Some N"
      and "first_member f2 = Some m2" and "count m2 = Some N"
      and "1 \<le> N"
  shows "\<exists>s md1. makeClusterStyle f1 (style_calls earlier no_styles) = (Some s, md1)
           \<and> styleCache md1 (String N) = Some s
           \<and> makeClusterStyle f2 md1 = (Some s, md1)
           \<and> sid s < constructed md1
           \<and> (\<forall>f k v. styleCache md1 k = Some v \<longrightarrow> styleCache (snd (makeClusterStyle f md1)) k = Some v)
           \<and> (\<forall>f s'. fst (makeClusterStyle f md1) = Some s' \<longrightarrow> s' = s \<or> sid s' \<noteq> sid s)"
proof -
  let ?md0 = "style_calls earlier no_styles"
  from assms have sz1: "cluster_size f1 = Some N" and sz2: "cluster_size f2 = Some N"
    by (simp_all add: cluster_size_first)
  have ok: "cache_ok ?md0"
    by (simp add: style_calls_cache_ok cache_ok_no_styles)
  obtain r md1 where call: "makeClusterStyle f1 ?md0 = (r, md1)"
    by (cases "makeClusterStyle f1 ?md0")
  from makeClusterStyle_value [OF ok sz1] call
  obtain i where r: "r = Some (newStyle i N)" and entry: "styleCache md1 (String N) = Some (newStyle i N)"
    by auto
  let ?s = "newStyle i N"
  from makeClusterStyle_cache_ok [OF ok, of f1] call have ok1: "cache_ok md1"
    by simp
  from sz2 entry have second: "makeClusterStyle f2 md1 = (Some ?s, md1)"
    by (rule makeClusterStyle_hit)
  from ok1 entry obtain j m where "newStyle i N = newStyle j m" and "j < constructed md1"
    unfolding cache_ok_def by blast
  then have older: "sid ?s < constructed md1"
    by (metis sid_newStyle)
  have keeps: "\<forall>f k v. styleCache md1 k = Some v \<longrightarrow> styleCache (snd (makeClusterStyle f md1)) k = Some v"
    by (simp add: makeClusterStyle_keeps)
  have unique: "\<forall>f s'. fst (makeClusterStyle f md1) = Some s' \<longrightarrow> s' = ?s \<or> sid s' \<noteq> sid ?s"
  proof (intro allI impI)
    fix f s' assume ret: "fst (makeClusterStyle f md1) = Some s'"
    let ?md2 = "snd (makeClusterStyle f md1)"
    from ret obtain k where k: "styleCache ?md2 k = Some s'"
      using makeClusterStyle_returns_entry by blast
    from entry have e2: "styleCache ?md2 (String N) = Some ?s"
      by (rule makeClusterStyle_keeps)
    from makeClusterStyle_cache_ok [OF ok1, of f] have ok2: "cache_ok ?md2" .
    show "s' = ?s \<or> sid s' \<noteq> sid ?s"
    proof (cases "sid s' = sid ?s")
      case True
      with ok2 k e2 have "k = String N" unfolding cache_ok_def by blast
      with k e2 show ?thesis by simp
    next
      case False
      then show ?thesis by simp
    qed
  qed
  from call r have first: "makeClusterStyle f1 ?md0 = (Some ?s, md1)"
    by simp
  show ?thesis
    by (rule exI [of _ ?s], rule exI [of _ md1], intro conjI)
       (fact first entry second older keeps unique)+
qed

text \<open>
  Two calls for count 30 after a call for count 5: the module has constructed two objects,
  the second call returns the object of identity 1 again, and a call for count 7 then
  constructs a third.
\<close>

theorem cluster_style_memoized_twice:
  "\<exists>s md1. makeClusterStyle (member_of_count 30) (style_calls [member_of_count 5] no_styles) = (Some s, md1)
      \<and> sid s = 1 \<and> constructed md1 = 2
      \<and> styleCache md1 ''30'' = Some s
      \<and> makeClusterStyle \<lparr> features = Some [\<lparr> geometry = (1, 2), count = Some 30 \<rparr>, \<lparr> geometry = (3, 4), count = Some 7 \<rparr>] \<rparr> md1 = (Some s, md1)
      \<and> styleCache md1 ''5'' = Some (newStyle 0 5)
      \<and> fst (makeClusterStyle (member_of_count 7) md1) = Some (newStyle 2 7)"
proof -
  let ?f2 = "\<lparr> features = Some [\<lparr> geometry = (1, 2), count = Some 30 \<rparr>, \<lparr> geometry = (3, 4), count = Some 7 \<rparr>] \<rparr>"
  have m1: "first_member (member_of_count 30) = Some \<lparr> geometry = (0, 0), count = Some 30 \<rparr>"
    by (simp add: member_of_count_def first_member_def)
  have m2: "first_member ?f2 = Some \<lparr> geometry = (1, 2), count = Some 30 \<rparr>"
    by (simp add: first_member_def)
  have s30: "String 30 = ''30''" and s5: "String 5 = ''5''" and s7: "String 7 = ''7''"
    by (simp_all add: String_def nat_digits.simps digit_char_def)
  let ?md0 = "\<lparr> styleCache = [''5'' \<mapsto> newStyle 0 5], constructed = Suc 0 \<rparr>"
  let ?md1 = "\<lparr> styleCache = [''5'' \<mapsto> newStyle 0 5, ''30'' \<mapsto> newStyle (Suc 0) 30], constructed = Suc (Suc 0) \<rparr>"
  have md0: "style_calls [member_of_count 5] no_styles = ?md0"
    by (simp add: makeClusterStyle_def member_of_count_def cluster_size_def first_member_def s5 Let_def
          no_styles_def)
  have first: "makeClusterStyle (member_of_count 30) ?md0 = (Some (newStyle (Suc 0) 30), ?md1)"
    by (simp add: makeClusterStyle_def member_of_count_def cluster_size_def first_member_def s30 Let_def)
  from cluster_style_memoized [OF m1 _ m2, of 30 "[member_of_count 5]"]
  obtain s md1 where
    call: "makeClusterStyle (member_of_count 30) (style_calls [member_of_count 5] no_styles) = (Some s, md1)"
    and entry: "styleCache md1 ''30'' = Some s"
    and again: "makeClusterStyle ?f2 md1 = (Some s, md1)"
    by (auto simp: s30)
  from call have "makeClusterStyle (member_of_count 30) ?md0 = (Some s, md1)"
    by (simp only: md0)
  with first have s: "s = newStyle (Suc 0) 30" and md1: "md1 = ?md1"
    by simp_all
  have a: "sid s = 1" by (simp add: s sid_newStyle)
  have b: "constructed md1 = 2" by (simp add: md1)
  have c: "styleCache md1 ''5'' = Some (newStyle 0 5)" by (simp add: md1)
  have d: "fst (makeClusterStyle (member_of_count 7) md1) = Some (newStyle 2 7)"
    by (simp add: md1 makeClusterStyle_def member_of_count_def cluster_size_def first_member_def s7 Let_def
          numeral_2_eq_2)
  show ?thesis
    by (rule exI [of _ s], rule exI [of _ md1], intro conjI) (fact call a b entry again c d)+
qed

section \<open>Properties of the cluster pipeline\<close>

lemma find_named: "find (\<lambda>l. name l = Some n) ls = find (named n) ls"
proof -
  have "(\<lambda>l. name l = Some n) = named n" by (auto simp: named_def)
  then show ?thesis by simp
qed

lemma remove_object_found:
  "distinct (map lid ls) \<Longrightarrow> find P ls = Some x \<Longrightarrow> remove_object (lid x) ls = remove_first P ls"
proof (induction ls)
  case Nil
  then show ?case by simp
next
  case (Cons l ls)
  show ?case
  proof (cases "P l")
    case True
    with Cons.prems show ?thesis by simp
  next
    case False
    with Cons.prems have f: "find P ls = Some x" by simp
    then have "x \<in> set ls" by (auto simp: find_Some_iff)
    with Cons.prems have "lid l \<noteq> lid x" by auto
    with False f Cons show ?thesis by simp
  qed
qed

lemma remove_first_none: "find P ls = None \<Longrightarrow> remove_first P ls = ls"
  by (induction ls) (auto split: if_splits)

lemma set_remove_first: "set (remove_first P ls) \<subseteq> set ls"
  by (induction ls) auto

lemma distinct_remove_first: "distinct (map lid ls) \<Longrightarrow> distinct (map lid (remove_first P ls))"
proof (induction ls)
  case Nil
  then show ?case by simp
next
  case (Cons l ls)
  then show ?case using set_remove_first [of P ls] by auto
qed

lemma filter_remove_first: "filter P (remove_first P ls) = tl (filter P ls)"
  by (induction ls) auto

lemma filter_remove_first_other:
  "(\<And>x. P x \<Longrightarrow> \<not> Q x) \<Longrightarrow> filter Q (remove_first P ls) = filter Q ls"
  by (induction ls) auto

lemma find_remove_first_other:
  "(\<And>x. P x \<Longrightarrow> \<not> Q x) \<Longrightarrow> find Q (remove_first P ls) = find Q ls"
  by (induction ls) auto

lemma find_append_other: "\<not> Q l \<Longrightarrow> find Q (ls @ [l]) = find Q ls"
  by (induction ls) auto

lemma effect_removal:
  assumes "distinct (map lid (layers m))"
  shows "(case find (\<lambda>l. name l = Some ''cluster-layer'') (getAllLayers m) of
            None \<Rightarrow> m | Some existing \<Rightarrow> removeLayer existing m)
         = m\<lparr>layers := remove_first (named ''cluster-layer'') (layers m)\<rparr>"
proof (cases "find (named ''cluster-layer'') (layers m)")
  case None
  then show ?thesis
    by (simp add: find_named getAllLayers_def remove_first_none)
next
  case (Some x)
  with assms show ?thesis
    by (simp add: find_named getAllLayers_def removeLayer_def remove_object_found)
qed

lemma cluster_layer_effect_empty:
  assumes "mapRef st = Some m" and "distinct (map lid (layers m))" and "summary st = []"
  shows "cluster_layer_effect lib st =
           st\<lparr>mapRef := Some (m\<lparr>layers := remove_first (named ''cluster-layer'') (layers m)\<rparr>),
              clusterLayer := None\<rparr>"
  using assms effect_removal [OF assms(2)] by (simp add: cluster_layer_effect_def)

lemma gate_after_removal:
  "isBirthCertificateLayerVisible (m\<lparr>layers := remove_first (named ''cluster-layer'') (layers m)\<rparr>)
     = isBirthCertificateLayerVisible m"
proof -
  have "find (named ''Hospital Birth'') (remove_first (named ''cluster-layer'') (layers m))
          = find (named ''Hospital Birth'') (layers m)"
    by (rule find_remove_first_other) (simp add: named_def)
  then show ?thesis
    by (simp add: isBirthCertificateLayerVisible_def getAllLayers_def find_named)
qed

lemma cluster_layer_effect_nonempty:
  assumes "mapRef st = Some m" and "distinct (map lid (layers m))" and "summary st \<noteq> []"
  shows "cluster_layer_effect lib st =
           st\<lparr>mapRef := Some (m\<lparr>layers := remove_first (named ''cluster-layer'') (layers m)
                                          @ (if isBirthCertificateLayerVisible m then [new_cluster_layer lib st] else [])\<rparr>),
              clusterLayer := Some (new_cluster_layer lib st),
              next_id := Suc (next_id st)\<rparr>"
  using assms effect_removal [OF assms(2)]
  by (simp add: cluster_layer_effect_def Let_def new_cluster_layer_def addLayer_def gate_after_removal)

lemma find_None_filter: "find P ls = None \<longleftrightarrow> filter P ls = []"
  by (induction ls) auto

lemma remove_first_append_new:
  "filter P ls = [] \<Longrightarrow> P x \<Longrightarrow> remove_first P (ls @ [x]) = ls"
  by (induction ls) (auto split: if_splits)

lemma remove_first_unchanged: "filter P ls = [] \<Longrightarrow> remove_first P ls = ls"
  by (simp add: remove_first_none find_None_filter)

lemma filter_remove_first_single: "length (filter P ls) \<le> 1 \<Longrightarrow> filter P (remove_first P ls) = []"
  by (cases "filter P ls") (simp_all add: filter_remove_first)

lemma gate_with_cluster_layers:
  assumes "list_all (named ''cluster-layer'') extra"
  shows "isBirthCertificateLayerVisible (m\<lparr>layers := ls @ extra\<rparr>)
           = isBirthCertificateLayerVisible (m\<lparr>layers := ls\<rparr>)"
proof -
  have "find (named ''Hospital Birth'') (ls @ extra) = find (named ''Hospital Birth'') ls"
    using assms
  proof (induction ls)
    case Nil
    then show ?case by (induction extra) (auto simp: named_def)
  next
    case (Cons l ls)
    then show ?case by simp
  qed
  then show ?thesis
    by (simp add: isBirthCertificateLayerVisible_def getAllLayers_def find_named)
qed

lemma named_new_cluster_layer: "named ''cluster-layer'' (new_cluster_layer lib st)"
  by (simp add: named_def new_cluster_layer_def)

lemma refresh_resolved:
  "refreshClusterSummary p lib (Inr (Some items)) st = cluster_layer_effect lib (st\<lparr>summary := items\<rparr>)"
  by (simp add: refreshClusterSummary_def setSummary_def)

lemma refresh_nonempty:
  fixes p :: props and lib :: library and st :: component and items :: "clusterSummaryItem list"
  assumes m: "mapRef st = Some m" and fresh: "fresh_ids st"
      and one: "length (cluster_layers m) \<le> 1" and ne: "items \<noteq> []"
  defines "st' \<equiv> refreshClusterSummary p lib (Inr (Some items)) st"
  defines "new \<equiv> new_cluster_layer lib (st\<lparr>summary := items\<rparr>)"
  defines "rest \<equiv> remove_first (named ''cluster-layer'') (layers m)"
  shows "mapRef st' = Some (m\<lparr>layers := rest @ (if isBirthCertificateLayerVisible m then [new] else [])\<rparr>)
       \<and> clusterLayer st' = Some new
       \<and> summary st' = items
       \<and> next_id st' = Suc (next_id st)
       \<and> filter (named ''cluster-layer'') rest = []
       \<and> fresh_ids st'"
proof -
  from m fresh have d: "distinct (map lid (layers m))"
    by (simp add: fresh_ids_def)
  have eff: "st' = st\<lparr>summary := items,
                 mapRef := Some (m\<lparr>layers := rest @ (if isBirthCertificateLayerVisible m then [new] else [])\<rparr>),
                 clusterLayer := Some new, next_id := Suc (next_id st)\<rparr>"
    unfolding st'_def new_def rest_def refresh_resolved
    using cluster_layer_effect_nonempty [of "st\<lparr>summary := items\<rparr>" m lib] m d ne
    by simp
  have a: "mapRef st' = Some (m\<lparr>layers := rest @ (if isBirthCertificateLayerVisible m then [new] else [])\<rparr>)"
    and b: "clusterLayer st' = Some new" and c: "summary st' = items" and e: "next_id st' = Suc (next_id st)"
    by (simp_all add: eff)
  from one have f: "filter (named ''cluster-layer'') rest = []"
    unfolding rest_def cluster_layers_def by (rule filter_remove_first_single)
  have sub: "set rest \<subseteq> set (layers m)"
    unfolding rest_def by (rule set_remove_first)
  from m fresh have bound: "list_all (\<lambda>l. lid l < next_id st \<and> list_all (\<lambda>f. fid f < next_id st) (filters l)) (layers m)"
    by (simp add: fresh_ids_def)
  with sub have bound': "list_all (\<lambda>l. lid l < next_id st \<and> list_all (\<lambda>f. fid f < next_id st) (filters l)) rest"
    by (auto simp: list_all_iff)
  have drest: "distinct (map lid rest)"
    unfolding rest_def using d by (rule distinct_remove_first)
  have lnew: "lid new = next_id st" "filters new = []"
    by (simp_all add: new_def new_cluster_layer_def)
  from bound' have notin: "next_id st \<notin> lid ` set rest"
    by (auto simp: list_all_iff)
  from bound' have weak: "list_all (\<lambda>l. lid l < Suc (next_id st) \<and> list_all (\<lambda>f. fid f < Suc (next_id st)) (filters l)) rest"
    by (auto simp: list_all_iff less_Suc_eq)
  have "fresh_ids st'"
    using drest notin weak lnew by (simp add: eff fresh_ids_def)
  with a b c e f show ?thesis by simp
qed

lemma source_points_new: "source_points (new_cluster_layer lib st) = map (point_feature lib) (summary st)"
  by (simp add: source_points_def new_cluster_layer_def)

lemma count_point_feature: "count (point_feature lib item) = Some (item_count item)"
  by (simp add: point_feature_def)

text \<open>
  Claim C3, as amended. Two successive refreshes resolve with non-empty lists \<open>xs\<close> and
  then \<open>ys\<close>, on a mounted map that held at most one layer named "cluster-layer".
  After the second, the layer the component holds is a new layer named "cluster-layer"
  whose source has exactly one point feature per element of \<open>ys\<close>, each tagged with its
  aggregate's count, and none from \<open>xs\<close>. The map carries that layer, as its only layer
  of that name, if the layer named "Hospital Birth" is visible; if it is not, the map
  carries no layer of that name and the new layer is held unattached.
\<close>

theorem successive_refreshes_replace_overlay:
  fixes p :: props and lib :: library
  assumes m: "mapRef st = Some m" and fresh: "fresh_ids st"
      and one: "length (cluster_layers m) \<le> 1"
      and xs: "xs \<noteq> []" and ys: "ys \<noteq> []"
  shows "\<exists>m2 new.
           mapRef (refreshClusterSummary p lib (Inr (Some ys))
                    (refreshClusterSummary p lib (Inr (Some xs)) st)) = Some m2
         \<and> clusterLayer (refreshClusterSummary p lib (Inr (Some ys))
                    (refreshClusterSummary p lib (Inr (Some xs)) st)) = Some new
         \<and> name new = Some ''cluster-layer''
         \<and> source new = Some (Cluster 40 (map (point_feature lib) ys))
         \<and> length (source_points new) = length ys
         \<and> map count (source_points new) = map (\<lambda>item. Some (item_count item)) ys
         \<and> cluster_layers m2 = (if isBirthCertificateLayerVisible m then [new] else [])
         \<and> isBirthCertificateLayerVisible m2 = isBirthCertificateLayerVisible m"
proof -
  let ?C = "named ''cluster-layer''"
  define st1 where "st1 = refreshClusterSummary p lib (Inr (Some xs)) st"
  define new1 where "new1 = new_cluster_layer lib (st\<lparr>summary := xs\<rparr>)"
  define rest where "rest = remove_first ?C (layers m)"
  define m1 where "m1 = m\<lparr>layers := rest @ (if isBirthCertificateLayerVisible m then [new1] else [])\<rparr>"
  note first = refresh_nonempty [OF m fresh one xs, of p lib, folded st1_def new1_def rest_def]
  have map1: "mapRef st1 = Some m1" and fresh1: "fresh_ids st1" and norest: "filter ?C rest = []"
    using first by (simp_all add: m1_def)
  have C1: "?C new1"
    unfolding new1_def by (rule named_new_cluster_layer)
  have layers1: "layers m1 = rest @ (if isBirthCertificateLayerVisible m then [new1] else [])"
    by (simp add: m1_def)
  have one1: "length (cluster_layers m1) \<le> 1"
    using norest C1 by (simp add: cluster_layers_def layers1)
  have rest1: "remove_first ?C (layers m1) = rest"
    using norest C1 by (simp add: layers1 remove_first_append_new remove_first_unchanged)
  have gate_rest: "isBirthCertificateLayerVisible (m\<lparr>layers := rest\<rparr>) = isBirthCertificateLayerVisible m"
    unfolding rest_def by (rule gate_after_removal)
  have gate1: "isBirthCertificateLayerVisible m1 = isBirthCertificateLayerVisible m"
    unfolding m1_def using gate_with_cluster_layers [where extra = "if isBirthCertificateLayerVisible m then [new1] else []" and m = m and ls = rest] C1 gate_rest
    by simp
  define st2 where "st2 = refreshClusterSummary p lib (Inr (Some ys)) st1"
  define new2 where "new2 = new_cluster_layer lib (st1\<lparr>summary := ys\<rparr>)"
  define m2 where "m2 = m1\<lparr>layers := rest @ (if isBirthCertificateLayerVisible m then [new2] else [])\<rparr>"
  note second = refresh_nonempty [OF map1 fresh1 one1 ys, of p lib, folded st2_def new2_def, unfolded rest1 gate1]
  have map2: "mapRef st2 = Some m2" and held: "clusterLayer st2 = Some new2"
    using second by (simp_all add: m2_def)
  have C2: "?C new2"
    unfolding new2_def by (rule named_new_cluster_layer)
  have cl2: "cluster_layers m2 = (if isBirthCertificateLayerVisible m then [new2] else [])"
    using norest C2 by (simp add: cluster_layers_def m2_def)
  have gate2: "isBirthCertificateLayerVisible m2 = isBirthCertificateLayerVisible m"
  proof -
    have "isBirthCertificateLayerVisible m2 = isBirthCertificateLayerVisible (m1\<lparr>layers := rest\<rparr>)"
      unfolding m2_def
      using gate_with_cluster_layers [where extra = "if isBirthCertificateLayerVisible m then [new2] else []" and m = m1 and ls = rest] C2
      by simp
    also have "\<dots> = isBirthCertificateLayerVisible (m\<lparr>layers := rest\<rparr>)"
      by (simp add: isBirthCertificateLayerVisible_def getAllLayers_def)
    finally show ?thesis using gate_rest by simp
  qed
  have pts: "source_points new2 = map (point_feature lib) ys"
    by (simp add: new2_def source_points_new)
  have src: "source new2 = Some (Cluster 40 (map (point_feature lib) ys))"
    by (simp add: new2_def new_cluster_layer_def)
  have nm: "name new2 = Some ''cluster-layer''"
    using C2 by (simp add: named_def)
  have cnt: "map count (source_points new2) = map (\<lambda>item. Some (item_count item)) ys"
    by (simp add: pts count_point_feature)
  show ?thesis
    using map2 held nm src pts cnt cl2 gate2
    unfolding st2_def st1_def by simp
qed

lemmas example_defs = host_layer_def mounted_def example_library_def example_props_def aggregate_def

text \<open>
  Claim C3 as stated fails where the gating layer is hidden when the overlay is rebuilt:
  after two refreshes with non-empty lists the map carries no layer named "cluster-layer".
\<close>

theorem hidden_gate_no_overlay_layer:
  "\<exists>m2 held. mapRef (refreshClusterSummary example_props example_library (Inr (Some [aggregate 12 22 7]))
             (refreshClusterSummary example_props example_library
                (Inr (Some [aggregate 10 20 30, aggregate 11 21 5]))
                (mounted [host_layer 0 ''Hospital Birth'' False] 1))) = Some m2
        \<and> filter (\<lambda>l. name l = Some ''cluster-layer'') (layers m2) = []
        \<and> layers m2 = [host_layer 0 ''Hospital Birth'' False]
        \<and> clusterLayer (refreshClusterSummary example_props example_library (Inr (Some [aggregate 12 22 7]))
             (refreshClusterSummary example_props example_library
                (Inr (Some [aggregate 10 20 30, aggregate 11 21 5]))
                (mounted [host_layer 0 ''Hospital Birth'' False] 1))) = Some held
        \<and> source held = Some (Cluster 40 [\<lparr> geometry = (12, 22), count = Some 7 \<rparr>])"
  by (simp add: example_defs refreshClusterSummary_def setSummary_def cluster_layer_effect_def
        getAllLayers_def isBirthCertificateLayerVisible_def point_feature_def Let_def)

text \<open>The amended claim at a map whose gating layer is visible: lists of sizes 2 and then 1.\<close>

theorem successive_refreshes_visible_gate:
  "\<exists>m2 new. mapRef (refreshClusterSummary example_props example_library (Inr (Some [aggregate 12 22 7]))
             (refreshClusterSummary example_props example_library
                (Inr (Some [aggregate 10 20 30, aggregate 11 21 5]))
                (mounted [host_layer 0 ''Hospital Birth'' True] 1))) = Some m2
        \<and> cluster_layers m2 = [new]
        \<and> length (source_points new) = 1
        \<and> map count (source_points new) = [Some 7]"
proof -
  let ?st = "mounted [host_layer 0 ''Hospital Birth'' True] 1"
  let ?m = "\<lparr> layers = [host_layer 0 ''Hospital Birth'' True], singleclick = [Bound] \<rparr>"
  have m: "mapRef ?st = Some ?m" by (simp add: mounted_def)
  have fresh: "fresh_ids ?st" by (simp add: fresh_ids_def mounted_def host_layer_def)
  have one: "length (cluster_layers ?m) \<le> 1" by (simp add: cluster_layers_def named_def host_layer_def)
  have gate: "isBirthCertificateLayerVisible ?m"
    by (simp add: isBirthCertificateLayerVisible_def getAllLayers_def host_layer_def)
  have xs: "[aggregate 10 20 30, aggregate 11 21 5] \<noteq> []" and ys: "[aggregate 12 22 7] \<noteq> []"
    by simp_all
  from successive_refreshes_replace_overlay [OF m fresh one xs ys, of example_props example_library] gate
  show ?thesis
    by (auto simp: aggregate_def)
qed

text \<open>
  Claim C10. When a refresh resolves with an empty list, or with a value that is not an
  array, the layer found under the name "cluster-layer" is taken off the map and the other
  layers stay as they were, in order; where the map held at most one layer of that name,
  none is left. No layer is created, the stored list is empty and the held handle is
  cleared.
\<close>

theorem empty_refresh_erases_overlay:
  fixes p :: props and lib :: library
  assumes m: "mapRef st = Some m" and d: "distinct (map lid (layers m))"
      and resp: "resp = None \<or> resp = Some []"
  shows "\<exists>m'. mapRef (refreshClusterSummary p lib (Inr resp) st) = Some m'
           \<and> layers m' = remove_first (named ''cluster-layer'') (layers m)
           \<and> (length (cluster_layers m) \<le> 1 \<longrightarrow> cluster_layers m' = [])
           \<and> set (layers m') \<subseteq> set (layers m)
           \<and> summary (refreshClusterSummary p lib (Inr resp) st) = []
           \<and> clusterLayer (refreshClusterSummary p lib (Inr resp) st) = None
           \<and> next_id (refreshClusterSummary p lib (Inr resp) st) = next_id st"
proof -
  let ?rest = "remove_first (named ''cluster-layer'') (layers m)"
  from resp have "refreshClusterSummary p lib (Inr resp) st = cluster_layer_effect lib (st\<lparr>summary := []\<rparr>)"
    by (auto simp: refreshClusterSummary_def setSummary_def)
  also have "\<dots> = st\<lparr>summary := [], mapRef := Some (m\<lparr>layers := ?rest\<rparr>), clusterLayer := None\<rparr>"
    using cluster_layer_effect_empty [of "st\<lparr>summary := []\<rparr>" m lib] m d by simp
  finally have eff: "refreshClusterSummary p lib (Inr resp) st
                       = st\<lparr>summary := [], mapRef := Some (m\<lparr>layers := ?rest\<rparr>), clusterLayer := None\<rparr>" .
  have gone: "length (cluster_layers m) \<le> 1 \<longrightarrow> cluster_layers (m\<lparr>layers := ?rest\<rparr>) = []"
    by (simp add: cluster_layers_def filter_remove_first_single)
  have sub: "set ?rest \<subseteq> set (layers m)"
    by (rule set_remove_first)
  from gone sub show ?thesis
    by (simp add: eff)
qed

text \<open>An empty result after a refresh that displayed two aggregates.\<close>

theorem empty_refresh_erases_displayed_overlay:
  "\<exists>m'. mapRef (refreshClusterSummary example_props example_library (Inr (Some []))
            (refreshClusterSummary example_props example_library
               (Inr (Some [aggregate 10 20 30, aggregate 11 21 5]))
               (mounted [host_layer 0 ''Hospital Birth'' True] 1))) = Some m'
        \<and> layers m' = [host_layer 0 ''Hospital Birth'' True]
        \<and> clusterLayer (refreshClusterSummary example_props example_library (Inr (Some []))
            (refreshClusterSummary example_props example_library
               (Inr (Some [aggregate 10 20 30, aggregate 11 21 5]))
               (mounted [host_layer 0 ''Hospital Birth'' True] 1))) = None"
proof -
  let ?new = "\<lparr> lid = 1, name = Some ''cluster-layer'', visible = True,
       source = Some (Cluster 40 [\<lparr> geometry = (10, 20), count = Some 30 \<rparr>, \<lparr> geometry = (11, 21), count = Some 5 \<rparr>]),
       layer_style = MakeClusterStyle, animationDuration = Some 700, filters = [] \<rparr>"
  let ?m1 = "\<lparr> layers = [host_layer 0 ''Hospital Birth'' True, ?new], singleclick = [Bound] \<rparr>"
  let ?st1 = "refreshClusterSummary example_props example_library
               (Inr (Some [aggregate 10 20 30, aggregate 11 21 5]))
               (mounted [host_layer 0 ''Hospital Birth'' True] 1)"
  have m1: "mapRef ?st1 = Some ?m1"
    by (simp add: example_defs refreshClusterSummary_def setSummary_def cluster_layer_effect_def
        getAllLayers_def isBirthCertificateLayerVisible_def point_feature_def addLayer_def Let_def)
  have d: "distinct (map lid (layers ?m1))"
    by (simp add: host_layer_def)
  have r: "Some [] = None \<or> Some [] = (Some [] :: clusterSummaryItem list option)"
    by simp
  from empty_refresh_erases_overlay [OF m1 d r, of example_props example_library]
  obtain m' where a: "mapRef (refreshClusterSummary example_props example_library (Inr (Some [])) ?st1) = Some m'"
    and b: "layers m' = remove_first (named ''cluster-layer'') (layers ?m1)"
    and c: "clusterLayer (refreshClusterSummary example_props example_library (Inr (Some [])) ?st1) = None"
    by blast
  have "remove_first (named ''cluster-layer'') (layers ?m1) = [host_layer 0 ''Hospital Birth'' True]"
    by (simp add: named_def host_layer_def)
  with a b c show ?thesis by simp
qed

lemma displaying_reached:
  "refreshClusterSummary example_props example_library
     (Inr (Some [aggregate 10 20 30, aggregate 11 21 5]))
     (mounted [host_layer 0 ''Hospital Birth'' True] 2) = displaying"
  by (simp add: example_defs refreshClusterSummary_def setSummary_def cluster_layer_effect_def
        getAllLayers_def isBirthCertificateLayerVisible_def point_feature_def addLayer_def Let_def
        displaying_def displayed_overlay_def)

text \<open>
  Claim C6. When the aggregate fetch rejects, the error's message goes to the notifier's
  error callback, if the host supplied one: the \<open>message\<close> of the rejection when it has a
  non-empty one, else the rejection as a string. Nothing else changes: the stored list,
  the held overlay layer, the map with its layers and features are what they were, and no
  object is created.
\<close>

theorem refresh_failure_leaves_overlay:
  "(\<forall>msg. message e = Some msg \<and> msg \<noteq> [] \<longrightarrow>
      refreshClusterSummary p lib (Inl e) st
        = (if notify_error p then st\<lparr>emitted := emitted st @ [NotifyError msg]\<rparr> else st))
   \<and> (message e = None \<or> message e = Some [] \<longrightarrow>
      refreshClusterSummary p lib (Inl e) st
        = (if notify_error p then st\<lparr>emitted := emitted st @ [NotifyError (repr e)]\<rparr> else st))
   \<and> summary (refreshClusterSummary p lib (Inl e) st) = summary st
   \<and> clusterLayer (refreshClusterSummary p lib (Inl e) st) = clusterLayer st
   \<and> mapRef (refreshClusterSummary p lib (Inl e) st) = mapRef st
   \<and> next_id (refreshClusterSummary p lib (Inl e) st) = next_id st"
proof (intro conjI allI impI)
  fix msg assume "message e = Some msg \<and> msg \<noteq> []"
  then have "error_text e = msg" by (simp add: error_text_def)
  then show "refreshClusterSummary p lib (Inl e) st
        = (if notify_error p then st\<lparr>emitted := emitted st @ [NotifyError msg]\<rparr> else st)"
    by (simp add: refreshClusterSummary_def notifyError_def emit_def)
next
  assume "message e = None \<or> message e = Some []"
  then have "error_text e = repr e" by (auto simp: error_text_def)
  then show "refreshClusterSummary p lib (Inl e) st
        = (if notify_error p then st\<lparr>emitted := emitted st @ [NotifyError (repr e)]\<rparr> else st)"
    by (simp add: refreshClusterSummary_def notifyError_def emit_def)
qed (simp_all add: refreshClusterSummary_def notifyError_def emit_def)

text \<open>
  A refresh that displayed two aggregates, then a refresh that rejects: with an \<open>Error\<close>
  its message is reported, with a thrown string the string; the overlay is still the one
  of the two aggregates.
\<close>

theorem refresh_failure_reports_message:
  "refreshClusterSummary example_props example_library (Inl network_error)
     (refreshClusterSummary example_props example_library
        (Inr (Some [aggregate 10 20 30, aggregate 11 21 5]))
        (mounted [host_layer 0 ''Hospital Birth'' True] 2))
     = displaying \<lparr> emitted := [NotifyError ''Network Error''] \<rparr>
   \<and> refreshClusterSummary example_props example_library (Inl thrown_text)
     (refreshClusterSummary example_props example_library
        (Inr (Some [aggregate 10 20 30, aggregate 11 21 5]))
        (mounted [host_layer 0 ''Hospital Birth'' True] 2))
     = displaying \<lparr> emitted := [NotifyError ''timeout''] \<rparr>
   \<and> mapRef displaying
     = Some \<lparr> layers = [host_layer 0 ''Hospital Birth'' True, displayed_overlay], singleclick = [Bound] \<rparr>"
proof -
  have msg: "message network_error = Some ''Network Error'' \<and> ''Network Error'' \<noteq> []"
    by (simp add: network_error_def)
  have none: "message thrown_text = None \<or> message thrown_text = Some []"
    by (simp add: thrown_text_def)
  have notify: "notify_error example_props" by (simp add: example_props_def)
  have quiet: "emitted displaying = []" by (simp add: displaying_def mounted_def)
  from refresh_failure_leaves_overlay [of network_error example_props example_library displaying] msg notify
  have "refreshClusterSummary example_props example_library (Inl network_error) displaying
          = displaying\<lparr>emitted := emitted displaying @ [NotifyError ''Network Error'']\<rparr>"
    by simp
  then have a: "refreshClusterSummary example_props example_library (Inl network_error) displaying
          = displaying\<lparr>emitted := [NotifyError ''Network Error'']\<rparr>"
    by (simp add: quiet)
  from refresh_failure_leaves_overlay [of thrown_text example_props example_library displaying] none notify
  have "refreshClusterSummary example_props example_library (Inl thrown_text) displaying
          = displaying\<lparr>emitted := emitted displaying @ [NotifyError (repr thrown_text)]\<rparr>"
    by simp
  then have b: "refreshClusterSummary example_props example_library (Inl thrown_text) displaying
          = displaying\<lparr>emitted := [NotifyError ''timeout'']\<rparr>"
    by (simp add: quiet thrown_text_def)
  have c: "mapRef displaying
     = Some \<lparr> layers = [host_layer 0 ''Hospital Birth'' True, displayed_overlay], singleclick = [Bound] \<rparr>"
    by (simp add: displaying_def mounted_def)
  show ?thesis
    unfolding displaying_reached by (intro conjI) (fact a b c)+
qed

section \<open>Properties of the clip pipeline\<close>

lemma layers_outlined:
  "layers (outlined st m feats) = layers (retire_boundary (clippedBoundary st) m) @ [outline_layer st feats]"
  by (simp add: outlined_def addLayer_def)

lemma clip_resolved:
  assumes "mapRef st = Some m"
      and "readFeatures lib (geojson_text res) = Inr feats"
      and "last_coordinates feats (Some []) = Some coords"
  shows "clip p lib (Inr res) st =
           (None, st\<lparr>mapRef := Some ((outlined st m feats)
                                 \<lparr>layers := map (clip_mask p lib st coords) (layers (outlined st m feats))\<rparr>),
                     clippedBoundary := Some (clip_mask p lib st coords (outline_layer st feats)),
                     clusterLayer := map_option
                        (\<lambda>held. if held_on_map (outlined st m feats) held
                                then clip_mask p lib st coords held else held)
                        (clusterLayer st),
                     navigationCropFilter := Some (new_crop st coords),
                     next_id := Suc (Suc (next_id st))\<rparr>)"
  unfolding clip_mask_def outlined_def new_crop_def outline_layer_def using assms
  by (simp add: clip_def Let_def getAllLayers_def)

lemma clip_reader_throws:
  assumes "mapRef st = Some m" and "readFeatures lib (geojson_text res) = Inl e"
  shows "clip p lib (Inr res) st = (Some e, boundary_retired st m)"
  using assms by (simp add: clip_def Let_def boundary_retired_def)

lemma clip_no_coordinates:
  assumes "mapRef st = Some m"
      and "readFeatures lib (geojson_text res) = Inr feats"
      and "last_coordinates feats (Some []) = None"
  shows "clip p lib (Inr res) st =
           (Some multiPolygon_TypeError,
            st\<lparr>mapRef := Some (outlined st m feats),
               clippedBoundary := Some (outline_layer st feats),
               next_id := Suc (next_id st)\<rparr>)"
  using assms by (simp add: clip_def Let_def outline_layer_def outlined_def)

lemma clip_fetch_rejects:
  assumes "mapRef st = Some m"
  shows "clip p lib (Inl e) st = (Some e, boundary_retired st m)"
  using assms by (simp add: clip_def Let_def boundary_retired_def)

lemma clip_succeeded:
  assumes m: "mapRef st = Some m" and ok: "clip p lib settled st = (None, st')"
  obtains res feats coords where "settled = Inr res"
    and "readFeatures lib (geojson_text res) = Inr feats"
    and "last_coordinates feats (Some []) = Some coords"
proof (cases settled)
  case (Inl e)
  with m ok show ?thesis by (simp add: clip_def Let_def)
next
  case (Inr res)
  show ?thesis
  proof (cases "readFeatures lib (geojson_text res)")
    case (Inl e)
    with m ok \<open>settled = Inr res\<close> show ?thesis by (simp add: clip_def Let_def)
  next
    case feats: (Inr feats)
    show ?thesis
    proof (cases "last_coordinates feats (Some [])")
      case None
      with m ok \<open>settled = Inr res\<close> feats show ?thesis by (simp add: clip_def Let_def)
    next
      case (Some coords)
      with \<open>settled = Inr res\<close> feats that show ?thesis by blast
    qed
  qed
qed

lemma geojson_text_absent: "absent_payload res \<Longrightarrow> geojson_text res = ''{}''"
  by (auto simp: absent_payload_def geojson_text_def split: option.splits list.splits)

lemma mask_layer_carries:
  "removeFilter lib old (filters lyr) \<noteq> None \<Longrightarrow> \<not> exempt skip lyr \<Longrightarrow>
   crop \<in> set (filters (mask_layer lib skip old crop lyr))"
  by (auto simp: mask_layer_def)

lemma mask_layer_exempt: "exempt skip lyr \<Longrightarrow> mask_layer lib skip old crop lyr = lyr"
  by (simp add: mask_layer_def)

lemma name_mask_layer: "name (mask_layer lib skip old crop lyr) = name lyr"
  by (simp add: mask_layer_def split: option.splits)

lemma exempt_mask_layer: "exempt skip (mask_layer lib skip' old crop lyr) = exempt skip lyr"
  by (simp add: exempt_def name_mask_layer)

lemma exempt_iff: "exempt skip lyr \<longleftrightarrow> (\<exists>nm. name lyr = Some nm \<and> nm \<noteq> [] \<and> nm \<in> set skip)"
  by (simp add: exempt_def split: option.splits)

lemma masked_layers_carry:
  assumes "\<forall>kept. removeFilter lib old kept \<noteq> None"
      and "l \<in> set (map (mask_layer lib skip old crop) ls)" and "\<not> exempt skip l"
  shows "crop \<in> set (filters l)"
  using assms by (auto simp: exempt_mask_layer mask_layer_carries)

lemma filters_clear_source: "filters (clear_source i lyr) = filters lyr"
  by (simp add: clear_source_def split: option.splits source.splits)

lemma set_remove_object: "set (remove_object i ls) \<subseteq> set ls"
  by (induction ls) auto

lemma retire_boundary_filters:
  assumes "l \<in> set (layers (retire_boundary held m))"
  shows "\<exists>l0 \<in> set (layers m). filters l = filters l0"
proof (cases held)
  case None
  with assms show ?thesis by (auto simp: retire_boundary_def)
next
  case (Some boundary)
  with assms have "l \<in> set (remove_object (lid boundary) (map (clear_source (lid boundary)) (layers m)))"
    by (simp add: retire_boundary_def removeLayer_def)
  with set_remove_object have "l \<in> set (map (clear_source (lid boundary)) (layers m))"
    by blast
  then show ?thesis by (auto simp: filters_clear_source)
qed

text \<open>
  Claim C9. After a successful \<open>clip\<close> (one whose \<open>removeFilter\<close> calls return) every
  layer on the map that has no \<open>name\<close> carries the new mask filter, whatever the
  exemption list holds; a layer on the map that does not carry it has a non-empty name
  that is a member of the exemption list.
\<close>

theorem unnamed_layers_are_masked:
  assumes m: "mapRef st = Some m" and ok: "clip p lib settled st = (None, st')"
      and ret: "\<forall>kept. removeFilter lib (navigationCropFilter st) kept \<noteq> None"
  shows "\<exists>m' crop. mapRef st' = Some m' \<and> navigationCropFilter st' = Some crop
           \<and> (\<forall>l \<in> set (layers m'). name l = None \<longrightarrow> crop \<in> set (filters l))
           \<and> (\<forall>l \<in> set (layers m'). crop \<notin> set (filters l) \<longrightarrow>
                  (\<exists>nm. name l = Some nm \<and> nm \<noteq> [] \<and> nm \<in> set (skipClipLayerNames p)))"
proof -
  from m ok obtain res feats coords where s: "settled = Inr res"
    and r: "readFeatures lib (geojson_text res) = Inr feats"
    and c: "last_coordinates feats (Some []) = Some coords"
    by (rule clip_succeeded)
  let ?crop = "new_crop st coords"
  let ?ls = "map (mask_layer lib (skipClipLayerNames p) (navigationCropFilter st) ?crop)
               (layers (retire_boundary (clippedBoundary st) m) @ [outline_layer st feats])"
  from ok have st': "st' = snd (clip p lib (Inr res) st)"
    by (simp add: s)
  have map': "mapRef st' = Some ((outlined st m feats)\<lparr>layers := ?ls\<rparr>)"
    and crop': "navigationCropFilter st' = Some ?crop"
    unfolding st' clip_resolved [OF m r c] by (simp_all add: clip_mask_def layers_outlined)
  have unnamed: "\<forall>l \<in> set ?ls. name l = None \<longrightarrow> ?crop \<in> set (filters l)"
  proof (intro ballI impI)
    fix l assume l: "l \<in> set ?ls" and n: "name l = None"
    from n have "\<not> exempt (skipClipLayerNames p) l" by (simp add: exempt_def)
    with ret l show "?crop \<in> set (filters l)" by (rule masked_layers_carry)
  qed
  have only: "\<forall>l \<in> set ?ls. ?crop \<notin> set (filters l) \<longrightarrow>
                (\<exists>nm. name l = Some nm \<and> nm \<noteq> [] \<and> nm \<in> set (skipClipLayerNames p))"
  proof (intro ballI impI)
    fix l assume l: "l \<in> set ?ls" and n: "?crop \<notin> set (filters l)"
    have "exempt (skipClipLayerNames p) l"
    proof (rule ccontr)
      assume "\<not> exempt (skipClipLayerNames p) l"
      with ret l have "?crop \<in> set (filters l)" by (rule masked_layers_carry)
      with n show False by simp
    qed
    then show "\<exists>nm. name l = Some nm \<and> nm \<noteq> [] \<and> nm \<in> set (skipClipLayerNames p)"
      by (simp add: exempt_iff)
  qed
  from map' crop' unnamed only show ?thesis by simp
qed

text \<open>
  Claim C5, as amended. After a successful \<open>clip\<close> on a mounted map (one whose
  \<open>removeFilter\<close> calls return), no layer on the map whose name is non-empty and in the
  exemption list carries the newly derived mask filter, and every other layer on the map
  (unnamed and empty-named ones included) carries it.
\<close>

theorem exemption_invariant:
  assumes m: "mapRef st = Some m" and fresh: "fresh_ids st"
      and ok: "clip p lib settled st = (None, st')"
      and ret: "\<forall>kept. removeFilter lib (navigationCropFilter st) kept \<noteq> None"
  shows "\<exists>m' crop. mapRef st' = Some m' \<and> navigationCropFilter st' = Some crop
           \<and> (\<forall>l \<in> set (layers m').
                  (\<exists>nm. name l = Some nm \<and> nm \<noteq> [] \<and> nm \<in> set (skipClipLayerNames p))
                    \<longrightarrow> crop \<notin> set (filters l))
           \<and> (\<forall>l \<in> set (layers m').
                  \<not> (\<exists>nm. name l = Some nm \<and> nm \<noteq> [] \<and> nm \<in> set (skipClipLayerNames p))
                    \<longrightarrow> crop \<in> set (filters l))"
proof -
  from m ok obtain res feats coords where s: "settled = Inr res"
    and r: "readFeatures lib (geojson_text res) = Inr feats"
    and c: "last_coordinates feats (Some []) = Some coords"
    by (rule clip_succeeded)
  let ?skip = "skipClipLayerNames p"
  let ?crop = "new_crop st coords"
  let ?before = "layers (retire_boundary (clippedBoundary st) m) @ [outline_layer st feats]"
  let ?ls = "map (mask_layer lib ?skip (navigationCropFilter st) ?crop) ?before"
  from ok have st': "st' = snd (clip p lib (Inr res) st)"
    by (simp add: s)
  have map': "mapRef st' = Some ((outlined st m feats)\<lparr>layers := ?ls\<rparr>)"
    and crop': "navigationCropFilter st' = Some ?crop"
    unfolding st' clip_resolved [OF m r c] by (simp_all add: clip_mask_def layers_outlined)
  from m fresh have old: "\<forall>l0 \<in> set (layers m). \<forall>f \<in> set (filters l0). fid f < next_id st"
    by (auto simp: fresh_ids_def list_all_iff)
  have before: "?crop \<notin> set (filters l0)" if "l0 \<in> set ?before" for l0
  proof (cases "l0 = outline_layer st feats")
    case True
    then show ?thesis by (simp add: outline_layer_def)
  next
    case False
    with that have "l0 \<in> set (layers (retire_boundary (clippedBoundary st) m))" by simp
    then obtain l1 where "l1 \<in> set (layers m)" and "filters l0 = filters l1"
      using retire_boundary_filters by blast
    with old have "\<forall>f \<in> set (filters l0). fid f < next_id st" by simp
    then show ?thesis by (auto simp: new_crop_def)
  qed
  have exempted: "\<forall>l \<in> set ?ls. (\<exists>nm. name l = Some nm \<and> nm \<noteq> [] \<and> nm \<in> set ?skip) \<longrightarrow> ?crop \<notin> set (filters l)"
  proof (intro ballI impI)
    fix l assume l: "l \<in> set ?ls" and "\<exists>nm. name l = Some nm \<and> nm \<noteq> [] \<and> nm \<in> set ?skip"
    then have e: "exempt ?skip l" by (simp add: exempt_iff)
    from l obtain l0 where l0: "l0 \<in> set ?before"
      and eq: "l = mask_layer lib ?skip (navigationCropFilter st) ?crop l0"
      by auto
    from e eq have "exempt ?skip l0" by (simp add: exempt_mask_layer)
    with eq have "l = l0" by (simp add: mask_layer_exempt)
    with before [OF l0] show "?crop \<notin> set (filters l)" by simp
  qed
  have others: "\<forall>l \<in> set ?ls. \<not> (\<exists>nm. name l = Some nm \<and> nm \<noteq> [] \<and> nm \<in> set ?skip) \<longrightarrow> ?crop \<in> set (filters l)"
  proof (intro ballI impI)
    fix l assume l: "l \<in> set ?ls" and "\<not> (\<exists>nm. name l = Some nm \<and> nm \<noteq> [] \<and> nm \<in> set ?skip)"
    then have "\<not> exempt ?skip l" by (simp add: exempt_iff)
    with ret l show "?crop \<in> set (filters l)" by (rule masked_layers_carry)
  qed
  from map' crop' exempted others show ?thesis by simp
qed

lemmas clip_eval = clip_def Let_def example_defs retire_boundary_def addLayer_def getAllLayers_def
  mask_layer_def exempt_def geojson_text_def empty_collection_def square_geojson_def payload_def
  unnamed_layer_def

text \<open>
  Claim C1 as stated fails: the fetch resolves with an empty feature collection, the reader
  returns no features, and \<open>clip\<close> adds an outline layer with an empty source, builds a
  mask over the empty coordinate list and attaches it to the layers that are not exempt.
\<close>

theorem empty_collection_is_masked:
  "clip example_props example_library (payload empty_collection)
     (mounted [host_layer 0 ''Roads'' True, host_layer 1 ''Aerial'' True] 2)
   = (None,
      (mounted [host_layer 0 ''Roads'' True, host_layer 1 ''Aerial'' True] 2)
        \<lparr> mapRef := Some \<lparr> layers =
              [ (host_layer 0 ''Roads'' True)
                  \<lparr> filters := [\<lparr> fid = 3, crop_coords = [], wrapX = True, inner = False, active = True \<rparr>] \<rparr>,
                host_layer 1 ''Aerial'' True,
                \<lparr> lid = 2, name = Some ''navigation-boundary'', visible = True,
                  source = Some (VectorSource []), layer_style = POLYGON_BOUNDARY_STYLE,
                  animationDuration = None,
                  filters = [\<lparr> fid = 3, crop_coords = [], wrapX = True, inner = False, active = True \<rparr>] \<rparr> ],
              singleclick = [Bound] \<rparr>,
          clippedBoundary := Some \<lparr> lid = 2, name = Some ''navigation-boundary'', visible = True,
                  source = Some (VectorSource []), layer_style = POLYGON_BOUNDARY_STYLE,
                  animationDuration = None,
                  filters = [\<lparr> fid = 3, crop_coords = [], wrapX = True, inner = False, active = True \<rparr>] \<rparr>,
          navigationCropFilter := Some \<lparr> fid = 3, crop_coords = [], wrapX = True, inner = False, active = True \<rparr>,
          next_id := 4 \<rparr>)"
  by (simp add: clip_eval)

lemma clip_square_example:
  "clip example_props example_library (payload square_geojson)
     (mounted [host_layer 0 ''Roads'' True, host_layer 1 ''Aerial'' True, unnamed_layer 2] 3)
   = (None,
      (mounted [host_layer 0 ''Roads'' True, host_layer 1 ''Aerial'' True, unnamed_layer 2] 3)
        \<lparr> mapRef := Some \<lparr> layers =
              [ (host_layer 0 ''Roads'' True)\<lparr> filters := [square_crop 4] \<rparr>,
                host_layer 1 ''Aerial'' True,
                (unnamed_layer 2)\<lparr> filters := [square_crop 4] \<rparr>,
                (square_outline 3)\<lparr> filters := [square_crop 4] \<rparr> ],
              singleclick = [Bound] \<rparr>,
          clippedBoundary := Some ((square_outline 3)\<lparr> filters := [square_crop 4] \<rparr>),
          navigationCropFilter := Some (square_crop 4),
          next_id := 5 \<rparr>)"
  by (simp add: clip_eval square_crop_def square_outline_def)

text \<open>
  Claim C5 as stated fails for a layer whose name is the empty string: with the empty
  string in the exemption list, that layer still receives the mask.
\<close>

theorem empty_name_is_not_exempt:
  "[] \<in> set (skipClipLayerNames (example_props\<lparr>skipClipLayerNames := [[]]\<rparr>))
   \<and> clip (example_props\<lparr>skipClipLayerNames := [[]]\<rparr>) example_library (payload square_geojson)
       (mounted [host_layer 0 [] True] 1)
     = (None,
        (mounted [host_layer 0 [] True] 1)
          \<lparr> mapRef := Some \<lparr> layers =
                [ (host_layer 0 [] True)\<lparr> filters := [square_crop 2] \<rparr>,
                  (square_outline 1)\<lparr> filters := [square_crop 2] \<rparr> ],
                singleclick = [Bound] \<rparr>,
            clippedBoundary := Some ((square_outline 1)\<lparr> filters := [square_crop 2] \<rparr>),
            navigationCropFilter := Some (square_crop 2),
            next_id := 3 \<rparr>)"
  by (simp add: clip_eval square_crop_def square_outline_def)

text \<open>
  The amended claim with the default exemption list, on a map with a layer "Roads", a layer
  "Aerial" and an unnamed layer: after the call only "Aerial" is without the mask.
\<close>

theorem exemption_invariant_default_names:
  "\<exists>m' crop.
      mapRef (snd (clip example_props example_library (payload square_geojson)
         (mounted [host_layer 0 ''Roads'' True, host_layer 1 ''Aerial'' True, unnamed_layer 2] 3))) = Some m'
    \<and> map name (layers m') = [Some ''Roads'', Some ''Aerial'', None, Some ''navigation-boundary'']
    \<and> map (\<lambda>l. crop \<in> set (filters l)) (layers m') = [True, False, True, True]"
proof -
  let ?st = "mounted [host_layer 0 ''Roads'' True, host_layer 1 ''Aerial'' True, unnamed_layer 2] 3"
  let ?m = "\<lparr> layers = [host_layer 0 ''Roads'' True, host_layer 1 ''Aerial'' True, unnamed_layer 2],
              singleclick = [Bound] \<rparr>"
  let ?call = "clip example_props example_library (payload square_geojson) ?st"
  have m: "mapRef ?st = Some ?m" by (simp add: mounted_def)
  have fresh: "fresh_ids ?st"
    by (simp add: fresh_ids_def mounted_def host_layer_def unnamed_layer_def)
  have ok: "?call = (None, snd ?call)"
    by (simp only: clip_square_example snd_conv)
  have ret: "\<forall>kept. removeFilter example_library (navigationCropFilter ?st) kept \<noteq> None"
    by (simp add: example_library_def)
  from exemption_invariant [OF m fresh ok ret]
  obtain m' crop where m': "mapRef (snd ?call) = Some m'"
    and crop: "navigationCropFilter (snd ?call) = Some crop"
    and ex: "\<forall>l \<in> set (layers m').
                  (\<exists>nm. name l = Some nm \<and> nm \<noteq> [] \<and> nm \<in> set (skipClipLayerNames example_props))
                    \<longrightarrow> crop \<notin> set (filters l)"
    and nex: "\<forall>l \<in> set (layers m').
                  \<not> (\<exists>nm. name l = Some nm \<and> nm \<noteq> [] \<and> nm \<in> set (skipClipLayerNames example_props))
                    \<longrightarrow> crop \<in> set (filters l)"
    by blast
  from m' have "mapRef ((mounted [host_layer 0 ''Roads'' True, host_layer 1 ''Aerial'' True, unnamed_layer 2] 3)
        \<lparr> mapRef := Some \<lparr> layers =
              [ (host_layer 0 ''Roads'' True)\<lparr> filters := [square_crop 4] \<rparr>,
                host_layer 1 ''Aerial'' True,
                (unnamed_layer 2)\<lparr> filters := [square_crop 4] \<rparr>,
                (square_outline 3)\<lparr> filters := [square_crop 4] \<rparr> ],
              singleclick = [Bound] \<rparr>,
          clippedBoundary := Some ((square_outline 3)\<lparr> filters := [square_crop 4] \<rparr>),
          navigationCropFilter := Some (square_crop 4),
          next_id := 5 \<rparr>) = Some m'"
    by (simp only: clip_square_example snd_conv)
  then have names: "map name (layers m') = [Some ''Roads'', Some ''Aerial'', None, Some ''navigation-boundary'']"
    by (auto simp: host_layer_def unnamed_layer_def square_outline_def)
  then obtain a b c d where ls: "layers m' = [a, b, c, d]"
    and n: "name a = Some ''Roads''" "name b = Some ''Aerial''" "name c = None" "name d = Some ''navigation-boundary''"
    by auto
  from ex nex ls n have "crop \<in> set (filters a)" "crop \<notin> set (filters b)" "crop \<in> set (filters c)" "crop \<in> set (filters d)"
    by (simp_all add: example_props_def)
  then have carried: "map (\<lambda>l. crop \<in> set (filters l)) (layers m') = [True, False, True, True]"
    by (simp add: ls)
  show ?thesis
    by (rule exI [of _ m'], rule exI [of _ crop], intro conjI) (fact m' names carried)+
qed

text \<open>
  An unnamed layer beside layers that are all exempt: it is the one that receives the mask.
\<close>

theorem unnamed_layer_is_masked_example:
  "\<exists>m' crop.
      mapRef (snd (clip (example_props\<lparr>skipClipLayerNames := [''Roads'', ''Aerial'', ''navigation-boundary'']\<rparr>)
          example_library (payload square_geojson)
         (mounted [host_layer 0 ''Roads'' True, unnamed_layer 1] 2))) = Some m'
    \<and> navigationCropFilter (snd (clip (example_props\<lparr>skipClipLayerNames := [''Roads'', ''Aerial'', ''navigation-boundary'']\<rparr>)
          example_library (payload square_geojson)
         (mounted [host_layer 0 ''Roads'' True, unnamed_layer 1] 2))) = Some crop
    \<and> map name (layers m') = [Some ''Roads'', None, Some ''navigation-boundary'']
    \<and> (\<exists>l \<in> set (layers m'). name l = None \<and> crop \<in> set (filters l))"
proof -
  let ?p = "example_props\<lparr>skipClipLayerNames := [''Roads'', ''Aerial'', ''navigation-boundary'']\<rparr>"
  let ?st = "mounted [host_layer 0 ''Roads'' True, unnamed_layer 1] 2"
  let ?m = "\<lparr> layers = [host_layer 0 ''Roads'' True, unnamed_layer 1], singleclick = [Bound] \<rparr>"
  let ?call = "clip ?p example_library (payload square_geojson) ?st"
  have m: "mapRef ?st = Some ?m" by (simp add: mounted_def)
  have eval: "?call = (None, ?st\<lparr> mapRef := Some \<lparr> layers =
                  [ host_layer 0 ''Roads'' True, (unnamed_layer 1)\<lparr> filters := [square_crop 3] \<rparr>, square_outline 2 ],
                  singleclick = [Bound] \<rparr>,
                clippedBoundary := Some (square_outline 2),
                navigationCropFilter := Some (square_crop 3),
                next_id := 4 \<rparr>)"
    by (simp add: clip_eval square_crop_def square_outline_def)
  then have ok: "?call = (None, snd ?call)" by (simp only: snd_conv)
  have ret: "\<forall>kept. removeFilter example_library (navigationCropFilter ?st) kept \<noteq> None"
    by (simp add: example_library_def)
  from unnamed_layers_are_masked [OF m ok ret]
  obtain m' crop where m': "mapRef (snd ?call) = Some m'"
    and crop: "navigationCropFilter (snd ?call) = Some crop"
    and un: "\<forall>l \<in> set (layers m'). name l = None \<longrightarrow> crop \<in> set (filters l)"
    by blast
  from m' have "mapRef (?st\<lparr> mapRef := Some \<lparr> layers =
                  [ host_layer 0 ''Roads'' True, (unnamed_layer 1)\<lparr> filters := [square_crop 3] \<rparr>, square_outline 2 ],
                  singleclick = [Bound] \<rparr>,
                clippedBoundary := Some (square_outline 2),
                navigationCropFilter := Some (square_crop 3),
                next_id := 4 \<rparr>) = Some m'"
    by (simp only: eval snd_conv)
  then have names: "map name (layers m') = [Some ''Roads'', None, Some ''navigation-boundary'']"
    by (auto simp: host_layer_def unnamed_layer_def square_outline_def)
  then obtain a b c where ls: "layers m' = [a, b, c]" and n: "name b = None"
    by auto
  with un have "crop \<in> set (filters b)" by simp
  with ls n have carried: "\<exists>l \<in> set (layers m'). name l = None \<and> crop \<in> set (filters l)" by auto
  show ?thesis
    by (rule exI [of _ m'], rule exI [of _ crop], intro conjI) (fact m' crop names carried)+
qed

lemma last_coordinates_snoc: "last_coordinates (fts @ [ft]) coords = geom ft"
  by (induction fts arbitrary: coords) simp_all

lemma next_id_boundary_retired: "next_id (boundary_retired st m) = next_id st"
  by (simp add: boundary_retired_def)

lemma clip_reader_returns_next_id:
  assumes m: "mapRef st = Some m" and r: "readFeatures lib (geojson_text res) = Inr feats"
  shows "next_id (snd (clip p lib (Inr res) st)) \<noteq> next_id st"
proof (cases "last_coordinates feats (Some [])")
  case None
  show ?thesis unfolding clip_no_coordinates [OF m r None] by simp
next
  case (Some coords)
  show ?thesis unfolding clip_resolved [OF m r Some] by simp
qed

text \<open>What \<open>clip\<close> does once the reader has returned a feature list.\<close>

lemma clip_reader_returns:
  assumes m: "mapRef st = Some m" and r: "readFeatures lib (geojson_text res) = Inr feats"
  shows "\<exists>m' held.
           mapRef (snd (clip p lib (Inr res) st)) = Some m'
         \<and> length (layers m') = Suc (length (layers (retire_boundary (clippedBoundary st) m)))
         \<and> (\<exists>l \<in> set (layers m'). lid l = next_id st \<and> name l = Some ''navigation-boundary''
               \<and> source l = Some (VectorSource feats))
         \<and> clippedBoundary (snd (clip p lib (Inr res) st)) = Some held
         \<and> lid held = next_id st \<and> held \<in> set (layers m')
         \<and> (last_coordinates feats (Some []) = None \<longrightarrow>
               clip p lib (Inr res) st
                 = (Some multiPolygon_TypeError,
                    st\<lparr>mapRef := Some (outlined st m feats),
                       clippedBoundary := Some (outline_layer st feats),
                       next_id := Suc (next_id st)\<rparr>))
         \<and> (\<forall>coords. last_coordinates feats (Some []) = Some coords \<longrightarrow>
               fst (clip p lib (Inr res) st) = None
             \<and> navigationCropFilter (snd (clip p lib (Inr res) st)) = Some (new_crop st coords)
             \<and> layers m' = map (clip_mask p lib st coords) (layers (outlined st m feats))
             \<and> ((\<forall>kept. removeFilter lib (navigationCropFilter st) kept \<noteq> None) \<longrightarrow>
                  (\<forall>l \<in> set (layers m'). \<not> exempt (skipClipLayerNames p) l
                     \<longrightarrow> new_crop st coords \<in> set (filters l))))"
proof (cases "last_coordinates feats (Some [])")
  case None
  let ?m' = "outlined st m feats"
  let ?out = "outline_layer st feats"
  note call = clip_no_coordinates [OF m r None, of p]
  have a: "mapRef (snd (clip p lib (Inr res) st)) = Some ?m'"
    and h: "clippedBoundary (snd (clip p lib (Inr res) st)) = Some ?out"
    unfolding call by simp_all
  have len: "length (layers ?m') = Suc (length (layers (retire_boundary (clippedBoundary st) m)))"
    by (simp add: layers_outlined)
  have on: "?out \<in> set (layers ?m')" by (simp add: layers_outlined)
  have props: "lid ?out = next_id st" "name ?out = Some ''navigation-boundary''"
    "source ?out = Some (VectorSource feats)"
    by (simp_all add: outline_layer_def)
  from on props have ex: "\<exists>l \<in> set (layers ?m'). lid l = next_id st \<and> name l = Some ''navigation-boundary''
               \<and> source l = Some (VectorSource feats)"
    by blast
  have thrown: "last_coordinates feats (Some []) = None \<longrightarrow>
               clip p lib (Inr res) st
                 = (Some multiPolygon_TypeError,
                    st\<lparr>mapRef := Some (outlined st m feats),
                       clippedBoundary := Some (outline_layer st feats),
                       next_id := Suc (next_id st)\<rparr>)"
    by (simp add: call)
  have last: "\<forall>c. last_coordinates feats (Some []) = Some c \<longrightarrow>
               fst (clip p lib (Inr res) st) = None
             \<and> navigationCropFilter (snd (clip p lib (Inr res) st)) = Some (new_crop st c)
             \<and> layers ?m' = map (clip_mask p lib st c) (layers (outlined st m feats))
             \<and> ((\<forall>kept. removeFilter lib (navigationCropFilter st) kept \<noteq> None) \<longrightarrow>
                  (\<forall>l \<in> set (layers ?m'). \<not> exempt (skipClipLayerNames p) l
                     \<longrightarrow> new_crop st c \<in> set (filters l)))"
    by (simp add: None)
  show ?thesis
    by (rule exI [of _ ?m'], rule exI [of _ ?out], intro conjI)
       (fact a len ex h props(1) on thrown last)+
next
  case (Some coords)
  let ?mask = "clip_mask p lib st coords"
  let ?m' = "(outlined st m feats)\<lparr>layers := map ?mask (layers (outlined st m feats))\<rparr>"
  let ?out = "?mask (outline_layer st feats)"
  note call = clip_resolved [OF m r Some, of p]
  have a: "mapRef (snd (clip p lib (Inr res) st)) = Some ?m'"
    and h: "clippedBoundary (snd (clip p lib (Inr res) st)) = Some ?out"
    and ok: "fst (clip p lib (Inr res) st) = None"
    and crop: "navigationCropFilter (snd (clip p lib (Inr res) st)) = Some (new_crop st coords)"
    unfolding call by simp_all
  have len: "length (layers ?m') = Suc (length (layers (retire_boundary (clippedBoundary st) m)))"
    by (simp add: layers_outlined)
  have on: "?out \<in> set (layers ?m')" by (simp add: layers_outlined)
  have props: "lid ?out = next_id st" "name ?out = Some ''navigation-boundary''"
    "source ?out = Some (VectorSource feats)"
    by (simp_all add: clip_mask_def mask_layer_def outline_layer_def split: option.splits)
  from on props have ex: "\<exists>l \<in> set (layers ?m'). lid l = next_id st \<and> name l = Some ''navigation-boundary''
               \<and> source l = Some (VectorSource feats)"
    by blast
  have masked: "(\<forall>kept. removeFilter lib (navigationCropFilter st) kept \<noteq> None) \<longrightarrow>
                  (\<forall>l \<in> set (layers ?m'). \<not> exempt (skipClipLayerNames p) l
                     \<longrightarrow> new_crop st coords \<in> set (filters l))"
  proof (intro impI ballI)
    fix l
    assume ret: "\<forall>kept. removeFilter lib (navigationCropFilter st) kept \<noteq> None"
      and "l \<in> set (layers ?m')" and e: "\<not> exempt (skipClipLayerNames p) l"
    then have "l \<in> set (map (mask_layer lib (skipClipLayerNames p) (navigationCropFilter st) (new_crop st coords))
                         (layers (outlined st m feats)))"
      by (simp add: clip_mask_def)
    with ret show "new_crop st coords \<in> set (filters l)" using e by (rule masked_layers_carry)
  qed
  have last: "\<forall>c. last_coordinates feats (Some []) = Some c \<longrightarrow>
               fst (clip p lib (Inr res) st) = None
             \<and> navigationCropFilter (snd (clip p lib (Inr res) st)) = Some (new_crop st c)
             \<and> layers ?m' = map (clip_mask p lib st c) (layers (outlined st m feats))
             \<and> ((\<forall>kept. removeFilter lib (navigationCropFilter st) kept \<noteq> None) \<longrightarrow>
                  (\<forall>l \<in> set (layers ?m'). \<not> exempt (skipClipLayerNames p) l
                     \<longrightarrow> new_crop st c \<in> set (filters l)))"
    using ok crop masked by (simp add: Some)
  have thrown: "last_coordinates feats (Some []) = None \<longrightarrow>
               clip p lib (Inr res) st
                 = (Some multiPolygon_TypeError,
                    st\<lparr>mapRef := Some (outlined st m feats),
                       clippedBoundary := Some (outline_layer st feats),
                       next_id := Suc (next_id st)\<rparr>)"
    by (simp add: Some)
  show ?thesis
    by (rule exI [of _ ?m'], rule exI [of _ ?out], intro conjI)
       (fact a len ex h props(1) on thrown last)+
qed


text \<open>
  Claim C1, as amended. \<open>clip\<close> has no guard for a fetch that resolves without geometry.
  An absent or empty payload is replaced by the text \<open>{}\<close>, and the text goes to the
  GeoJSON reader like any other. Steps 3 to 6 are all skipped exactly when the reader
  throws: then \<open>clip\<close> rejects with that error after retiring the previous boundary.
  Whenever the reader returns a feature list, also an empty one, the outline layer
  "navigation-boundary" is built from it, added to the map and recorded. If the last
  feature read has no geometry, building the mask geometry then throws: \<open>clip\<close> rejects
  with a TypeError, the outline stays on the map, and no mask is built, attached or
  recorded. Otherwise an active mask filter is built over the last feature's coordinates
  (the empty coordinate list when there are no features, or when the geometry is an empty
  multi-polygon), attached to every layer on the map that is not exempt (the
  \<open>removeFilter\<close> calls returning), and recorded.
\<close>

theorem clip_without_geometry:
  assumes m: "mapRef st = Some m"
  shows "(absent_payload res \<longrightarrow> geojson_text res = ''{}'')
       \<and> (\<forall>e. readFeatures lib (geojson_text res) = Inl e \<longrightarrow>
            clip p lib (Inr res) st = (Some e, boundary_retired st m))
       \<and> ((\<exists>e. readFeatures lib (geojson_text res) = Inl e)
            \<longleftrightarrow> snd (clip p lib (Inr res) st) = boundary_retired st m)
       \<and> (\<forall>feats. readFeatures lib (geojson_text res) = Inr feats \<longrightarrow>
            (\<exists>m' held.
               mapRef (snd (clip p lib (Inr res) st)) = Some m'
             \<and> length (layers m') = Suc (length (layers (retire_boundary (clippedBoundary st) m)))
             \<and> (\<exists>l \<in> set (layers m'). lid l = next_id st \<and> name l = Some ''navigation-boundary''
                   \<and> source l = Some (VectorSource feats))
             \<and> clippedBoundary (snd (clip p lib (Inr res) st)) = Some held
             \<and> lid held = next_id st \<and> held \<in> set (layers m')
             \<and> (last_coordinates feats (Some []) = None \<longrightarrow>
                   clip p lib (Inr res) st
                     = (Some multiPolygon_TypeError,
                        st\<lparr>mapRef := Some (outlined st m feats),
                           clippedBoundary := Some (outline_layer st feats),
                           next_id := Suc (next_id st)\<rparr>))
             \<and> (\<forall>coords. last_coordinates feats (Some []) = Some coords \<longrightarrow>
                   fst (clip p lib (Inr res) st) = None
                 \<and> navigationCropFilter (snd (clip p lib (Inr res) st)) = Some (new_crop st coords)
                 \<and> layers m' = map (clip_mask p lib st coords) (layers (outlined st m feats))
                 \<and> ((\<forall>kept. removeFilter lib (navigationCropFilter st) kept \<noteq> None) \<longrightarrow>
                      (\<forall>l \<in> set (layers m'). \<not> exempt (skipClipLayerNames p) l
                         \<longrightarrow> new_crop st coords \<in> set (filters l))))))
       \<and> (readFeatures lib (geojson_text res) = Inr [] \<longrightarrow>
            fst (clip p lib (Inr res) st) = None
          \<and> navigationCropFilter (snd (clip p lib (Inr res) st)) = Some (new_crop st []))
       \<and> (\<forall>fts ft coords. readFeatures lib (geojson_text res) = Inr (fts @ [ft]) \<and> geom ft = Some coords \<longrightarrow>
            fst (clip p lib (Inr res) st) = None
          \<and> navigationCropFilter (snd (clip p lib (Inr res) st)) = Some (new_crop st coords))
       \<and> (\<forall>fts ft. readFeatures lib (geojson_text res) = Inr (fts @ [ft]) \<and> geom ft = None \<longrightarrow>
            fst (clip p lib (Inr res) st) = Some multiPolygon_TypeError
          \<and> navigationCropFilter (snd (clip p lib (Inr res) st)) = navigationCropFilter st
          \<and> mapRef (snd (clip p lib (Inr res) st)) = Some (outlined st m (fts @ [ft])))"
proof (intro conjI)
  show "absent_payload res \<longrightarrow> geojson_text res = ''{}''"
    by (simp add: geojson_text_absent)
next
  show "\<forall>e. readFeatures lib (geojson_text res) = Inl e \<longrightarrow>
            clip p lib (Inr res) st = (Some e, boundary_retired st m)"
    using m by (simp add: clip_reader_throws)
next
  show "(\<exists>e. readFeatures lib (geojson_text res) = Inl e)
          \<longleftrightarrow> snd (clip p lib (Inr res) st) = boundary_retired st m"
  proof (cases "readFeatures lib (geojson_text res)")
    case (Inl e)
    with m show ?thesis by (simp add: clip_reader_throws)
  next
    case (Inr feats)
    from clip_reader_returns_next_id [OF m Inr, of p]
    have "snd (clip p lib (Inr res) st) \<noteq> boundary_retired st m"
      using next_id_boundary_retired [of st m] by auto
    with Inr show ?thesis by simp
  qed
next
  show "\<forall>feats. readFeatures lib (geojson_text res) = Inr feats \<longrightarrow>
            (\<exists>m' held.
               mapRef (snd (clip p lib (Inr res) st)) = Some m'
             \<and> length (layers m') = Suc (length (layers (retire_boundary (clippedBoundary st) m)))
             \<and> (\<exists>l \<in> set (layers m'). lid l = next_id st \<and> name l = Some ''navigation-boundary''
                   \<and> source l = Some (VectorSource feats))
             \<and> clippedBoundary (snd (clip p lib (Inr res) st)) = Some held
             \<and> lid held = next_id st \<and> held \<in> set (layers m')
             \<and> (last_coordinates feats (Some []) = None \<longrightarrow>
                   clip p lib (Inr res) st
                     = (Some multiPolygon_TypeError,
                        st\<lparr>mapRef := Some (outlined st m feats),
                           clippedBoundary := Some (outline_layer st feats),
                           next_id := Suc (next_id st)\<rparr>))
             \<and> (\<forall>coords. last_coordinates feats (Some []) = Some coords \<longrightarrow>
                   fst (clip p lib (Inr res) st) = None
                 \<and> navigationCropFilter (snd (clip p lib (Inr res) st)) = Some (new_crop st coords)
                 \<and> layers m' = map (clip_mask p lib st coords) (layers (outlined st m feats))
                 \<and> ((\<forall>kept. removeFilter lib (navigationCropFilter st) kept \<noteq> None) \<longrightarrow>
                      (\<forall>l \<in> set (layers m'). \<not> exempt (skipClipLayerNames p) l
                         \<longrightarrow> new_crop st coords \<in> set (filters l)))))"
    using clip_reader_returns [OF m] by blast
next
  show "readFeatures lib (geojson_text res) = Inr [] \<longrightarrow>
            fst (clip p lib (Inr res) st) = None
          \<and> navigationCropFilter (snd (clip p lib (Inr res) st)) = Some (new_crop st [])"
  proof
    assume r: "readFeatures lib (geojson_text res) = Inr []"
    have c: "last_coordinates [] (Some []) = Some []" by simp
    show "fst (clip p lib (Inr res) st) = None
          \<and> navigationCropFilter (snd (clip p lib (Inr res) st)) = Some (new_crop st [])"
      unfolding clip_resolved [OF m r c] by simp
  qed
next
  show "\<forall>fts ft coords. readFeatures lib (geojson_text res) = Inr (fts @ [ft]) \<and> geom ft = Some coords \<longrightarrow>
            fst (clip p lib (Inr res) st) = None
          \<and> navigationCropFilter (snd (clip p lib (Inr res) st)) = Some (new_crop st coords)"
  proof (intro allI impI)
    fix fts ft coords
    assume "readFeatures lib (geojson_text res) = Inr (fts @ [ft]) \<and> geom ft = Some coords"
    then have r: "readFeatures lib (geojson_text res) = Inr (fts @ [ft])"
      and c: "last_coordinates (fts @ [ft]) (Some []) = Some coords"
      by (simp_all add: last_coordinates_snoc)
    show "fst (clip p lib (Inr res) st) = None
          \<and> navigationCropFilter (snd (clip p lib (Inr res) st)) = Some (new_crop st coords)"
      unfolding clip_resolved [OF m r c] by simp
  qed
next
  show "\<forall>fts ft. readFeatures lib (geojson_text res) = Inr (fts @ [ft]) \<and> geom ft = None \<longrightarrow>
            fst (clip p lib (Inr res) st) = Some multiPolygon_TypeError
          \<and> navigationCropFilter (snd (clip p lib (Inr res) st)) = navigationCropFilter st
          \<and> mapRef (snd (clip p lib (Inr res) st)) = Some (outlined st m (fts @ [ft]))"
  proof (intro allI impI)
    fix fts ft
    assume "readFeatures lib (geojson_text res) = Inr (fts @ [ft]) \<and> geom ft = None"
    then have r: "readFeatures lib (geojson_text res) = Inr (fts @ [ft])"
      and c: "last_coordinates (fts @ [ft]) (Some []) = None"
      by (simp_all add: last_coordinates_snoc)
    show "fst (clip p lib (Inr res) st) = Some multiPolygon_TypeError
          \<and> navigationCropFilter (snd (clip p lib (Inr res) st)) = navigationCropFilter st
          \<and> mapRef (snd (clip p lib (Inr res) st)) = Some (outlined st m (fts @ [ft]))"
      unfolding clip_no_coordinates [OF m r c] by simp
  qed
qed

lemmas payload_texts = empty_collection_def null_geometry_def empty_multipolygon_def

text \<open>
  The amended claim on a map with the layers "Roads" and "Aerial", for four fetches without
  geometry: no rows (the reader throws on \<open>{}\<close>, the map stays as it was), an empty
  feature collection and an empty multi-polygon (a mask over no coordinates is recorded),
  and a feature with null geometry (a TypeError, the outline added, no mask).
\<close>

theorem clip_without_geometry_examples:
  "geojson_text (Some []) = ''{}''
   \<and> clip example_props geometry_library (Inr (Some []))
        (mounted [host_layer 0 ''Roads'' True, host_layer 2 ''Aerial'' True] 3)
      = (Some unsupported_type, mounted [host_layer 0 ''Roads'' True, host_layer 2 ''Aerial'' True] 3)
   \<and> fst (clip example_props geometry_library (payload empty_collection)
        (mounted [host_layer 0 ''Roads'' True, host_layer 2 ''Aerial'' True] 3)) = None
   \<and> navigationCropFilter (snd (clip example_props geometry_library (payload empty_collection)
        (mounted [host_layer 0 ''Roads'' True, host_layer 2 ''Aerial'' True] 3)))
      = Some \<lparr> fid = 4, crop_coords = [], wrapX = True, inner = False, active = True \<rparr>
   \<and> fst (clip example_props geometry_library (payload empty_multipolygon)
        (mounted [host_layer 0 ''Roads'' True, host_layer 2 ''Aerial'' True] 3)) = None
   \<and> navigationCropFilter (snd (clip example_props geometry_library (payload empty_multipolygon)
        (mounted [host_layer 0 ''Roads'' True, host_layer 2 ''Aerial'' True] 3)))
      = Some \<lparr> fid = 4, crop_coords = [], wrapX = True, inner = False, active = True \<rparr>
   \<and> fst (clip example_props geometry_library (payload null_geometry)
        (mounted [host_layer 0 ''Roads'' True, host_layer 2 ''Aerial'' True] 3))
      = Some multiPolygon_TypeError
   \<and> navigationCropFilter (snd (clip example_props geometry_library (payload null_geometry)
        (mounted [host_layer 0 ''Roads'' True, host_layer 2 ''Aerial'' True] 3))) = None
   \<and> mapRef (snd (clip example_props geometry_library (payload null_geometry)
        (mounted [host_layer 0 ''Roads'' True, host_layer 2 ''Aerial'' True] 3)))
      = Some \<lparr> layers = [host_layer 0 ''Roads'' True, host_layer 2 ''Aerial'' True,
                           \<lparr> lid = 3, name = Some ''navigation-boundary'', visible = True,
                             source = Some (VectorSource [\<lparr> geom = None \<rparr>]),
                             layer_style = POLYGON_BOUNDARY_STYLE, animationDuration = None,
                             filters = [] \<rparr>],
                 singleclick = [Bound] \<rparr>"
proof -
  let ?st = "mounted [host_layer 0 ''Roads'' True, host_layer 2 ''Aerial'' True] 3"
  let ?m = "\<lparr> layers = [host_layer 0 ''Roads'' True, host_layer 2 ''Aerial'' True], singleclick = [Bound] \<rparr>"
  have m: "mapRef ?st = Some ?m" by (simp add: mounted_def)
  have same: "boundary_retired ?st ?m = ?st"
    by (simp add: mounted_def boundary_retired_def retire_boundary_def held_cleared_def)
  have crop: "new_crop ?st [] = \<lparr> fid = 4, crop_coords = [], wrapX = True, inner = False, active = True \<rparr>"
    by (simp add: new_crop_def mounted_def)
  have old: "navigationCropFilter ?st = None" by (simp add: mounted_def)
  have out: "outlined ?st ?m ([] @ [\<lparr> geom = None \<rparr>])
               = \<lparr> layers = [host_layer 0 ''Roads'' True, host_layer 2 ''Aerial'' True,
                           \<lparr> lid = 3, name = Some ''navigation-boundary'', visible = True,
                             source = Some (VectorSource [\<lparr> geom = None \<rparr>]),
                             layer_style = POLYGON_BOUNDARY_STYLE, animationDuration = None,
                             filters = [] \<rparr>],
                   singleclick = [Bound] \<rparr>"
    by (simp add: outlined_def outline_layer_def retire_boundary_def addLayer_def mounted_def)
  have absent: "absent_payload (Some [])" by (simp add: absent_payload_def)
  have r0: "readFeatures geometry_library ''{}'' = Inl unsupported_type"
    by (simp add: geometry_library_def example_library_def payload_texts)
  have r1: "readFeatures geometry_library (geojson_text (Some [\<lparr> st_asgeojson = Some empty_collection \<rparr>])) = Inr []"
    by (simp add: geometry_library_def example_library_def geojson_text_def payload_texts)
  have r2: "readFeatures geometry_library (geojson_text (Some [\<lparr> st_asgeojson = Some empty_multipolygon \<rparr>]))
              = Inr ([] @ [\<lparr> geom = Some [] \<rparr>])"
    by (simp add: geometry_library_def example_library_def geojson_text_def payload_texts)
  have r3: "readFeatures geometry_library (geojson_text (Some [\<lparr> st_asgeojson = Some null_geometry \<rparr>]))
              = Inr ([] @ [\<lparr> geom = None \<rparr>])"
    by (simp add: geometry_library_def example_library_def geojson_text_def payload_texts)
  note t0 = clip_without_geometry [OF m, of "Some []" geometry_library example_props]
  from t0 absent have tx: "geojson_text (Some []) = ''{}''" by blast
  from t0 r0 tx have a: "clip example_props geometry_library (Inr (Some [])) ?st = (Some unsupported_type, ?st)"
    by (simp add: same)
  note t1 = clip_without_geometry [OF m, of "Some [\<lparr> st_asgeojson = Some empty_collection \<rparr>]"
              geometry_library example_props]
  from t1 r1 have b: "fst (clip example_props geometry_library (payload empty_collection) ?st) = None"
    and c: "navigationCropFilter (snd (clip example_props geometry_library (payload empty_collection) ?st))
              = Some \<lparr> fid = 4, crop_coords = [], wrapX = True, inner = False, active = True \<rparr>"
    unfolding payload_def crop [symmetric] by blast+
  note t2 = clip_without_geometry [OF m, of "Some [\<lparr> st_asgeojson = Some empty_multipolygon \<rparr>]"
              geometry_library example_props]
  have g2: "geom \<lparr> geom = Some ([] :: coordinates) \<rparr> = Some []" by simp
  from t2 r2 g2 have d: "fst (clip example_props geometry_library (payload empty_multipolygon) ?st) = None"
    and e: "navigationCropFilter (snd (clip example_props geometry_library (payload empty_multipolygon) ?st))
              = Some \<lparr> fid = 4, crop_coords = [], wrapX = True, inner = False, active = True \<rparr>"
    unfolding payload_def crop [symmetric] by blast+
  note t3 = clip_without_geometry [OF m, of "Some [\<lparr> st_asgeojson = Some null_geometry \<rparr>]"
              geometry_library example_props]
  have g3: "geom \<lparr> geom = (None :: coordinates option) \<rparr> = None" by simp
  from t3 r3 g3 have f: "fst (clip example_props geometry_library (payload null_geometry) ?st)
                           = Some multiPolygon_TypeError"
    and g: "navigationCropFilter (snd (clip example_props geometry_library (payload null_geometry) ?st))
              = navigationCropFilter ?st"
    and h: "mapRef (snd (clip example_props geometry_library (payload null_geometry) ?st))
              = Some (outlined ?st ?m ([] @ [\<lparr> geom = None \<rparr>]))"
    unfolding payload_def by blast+
  from g old have g': "navigationCropFilter (snd (clip example_props geometry_library (payload null_geometry) ?st)) = None"
    by (simp only:)
  from h out have h': "mapRef (snd (clip example_props geometry_library (payload null_geometry) ?st))
      = Some \<lparr> layers = [host_layer 0 ''Roads'' True, host_layer 2 ''Aerial'' True,
                           \<lparr> lid = 3, name = Some ''navigation-boundary'', visible = True,
                             source = Some (VectorSource [\<lparr> geom = None \<rparr>]),
                             layer_style = POLYGON_BOUNDARY_STYLE, animationDuration = None,
                             filters = [] \<rparr>],
                 singleclick = [Bound] \<rparr>"
    by (simp only:)
  show ?thesis
    by (intro conjI) (fact tx a b c d e f g' h')+
qed

section \<open>Properties of the identify interaction\<close>

lemma mapRef_emit: "mapRef (emit ev st) = mapRef st"
  by (simp add: emit_def)

lemma mapRef_notifyWarn: "mapRef (notifyWarn p msg st) = mapRef st"
  by (simp add: notifyWarn_def mapRef_emit)

lemma mapRef_notifyError: "mapRef (notifyError p msg st) = mapRef st"
  by (simp add: notifyError_def mapRef_emit)

lemma mapRef_villageClick:
  assumes "mapRef st = Some m"
  shows "mapRef (villageClick p lib g c settled st) = Some (un_singleclick (VillageClickEvent g) m)"
  using assms
  by (simp add: villageClick_def Let_def handlePulseAnimation_def mapRef_emit mapRef_notifyWarn
        mapRef_notifyError split: sum.splits option.splits list.splits)

lemma mapRef_run_listener:
  assumes "mapRef st = Some m"
  shows "mapRef (run_listener p lib c settled f st) = Some (m\<lparr>singleclick := unregister f (singleclick m)\<rparr>)"
proof (cases f)
  case Bound
  with assms show ?thesis by (simp add: handlePulseAnimation_def mapRef_emit)
next
  case (VillageClickEvent g)
  with assms show ?thesis by (simp add: mapRef_villageClick un_singleclick_def)
qed

lemma mapRef_fold_listeners:
  "mapRef st = Some m \<Longrightarrow>
   mapRef (fold (run_listener p lib c settled) fs st) = Some (m\<lparr>singleclick := fold unregister fs (singleclick m)\<rparr>)"
proof (induction fs arbitrary: st m)
  case Nil
  then show ?case by simp
next
  case (Cons f fs)
  from mapRef_run_listener [OF Cons.prems, of p lib c settled f]
  have "mapRef (run_listener p lib c settled f st) = Some (m\<lparr>singleclick := unregister f (singleclick m)\<rparr>)" .
  from Cons.IH [OF this] show ?case by simp
qed

lemma unregister_all:
  "list_all is_bound pre \<Longrightarrow> fold unregister fs (pre @ fs) = pre @ filter is_bound fs"
proof (induction fs arbitrary: pre)
  case Nil
  then show ?case by simp
next
  case (Cons f fs)
  show ?case
  proof (cases f)
    case Bound
    with Cons.prems have "list_all is_bound (pre @ [f])" by (simp add: list_all_iff is_bound_def)
    from Cons.IH [OF this] Bound show ?thesis by (simp add: is_bound_def)
  next
    case (VillageClickEvent g)
    with Cons.prems have "f \<notin> set pre" by (auto simp: list_all_iff is_bound_def)
    then have "remove1 f (pre @ f # fs) = pre @ fs" by (simp add: remove1_append)
    with Cons.IH [OF Cons.prems] VillageClickEvent show ?thesis by (simp add: is_bound_def)
  qed
qed

lemma click_listeners:
  assumes "mapRef st = Some m"
  shows "mapRef (click p lib c settled st) = Some (m\<lparr>singleclick := filter is_bound (singleclick m)\<rparr>)"
proof -
  have "fold unregister (singleclick m) ([] @ singleclick m) = [] @ filter is_bound (singleclick m)"
    by (rule unregister_all) simp
  with mapRef_fold_listeners [OF assms, of p lib c settled "singleclick m"] assms
  show ?thesis by (simp add: click_def)
qed

lemma fold_bound_listeners:
  "list_all is_bound fs \<Longrightarrow>
   fold (run_listener p lib c settled) fs st = st\<lparr>emitted := emitted st @ map (\<lambda>_. PulseAnimation c) fs\<rparr>"
proof (induction fs arbitrary: st)
  case Nil
  then show ?case by simp
next
  case (Cons f fs)
  then have f: "f = Bound" and rest: "list_all is_bound fs" by (simp_all add: list_all_iff is_bound_def)
  from Cons.IH [OF rest] f show ?case
    by (simp add: handlePulseAnimation_def emit_def)
qed

lemma click_unarmed:
  assumes "mapRef st = Some m" and "list_all is_bound (singleclick m)"
  shows "click p lib c settled st = st\<lparr>emitted := emitted st @ map (\<lambda>_. PulseAnimation c) (singleclick m)\<rparr>"
  using assms by (simp add: click_def fold_bound_listeners)

lemma arm_listeners:
  assumes "mapRef st = Some m"
  shows "\<exists>m1. mapRef (addIdentifyPointMode st) = Some m1
           \<and> VillageClickEvent (villageClickEvent st) \<in> set (singleclick m1)
           \<and> filter is_bound (singleclick m1) = filter is_bound (singleclick m)"
  using assms by (auto simp: addIdentifyPointMode_def on_singleclick_def is_bound_def)

text \<open>
  Claim C4. After \<open>arm()\<close> and one click, whatever the outcome of its fetch, no
  \<open>villageClickEvent\<close> callback is registered on the map: only the permanent feedback
  handlers are left. A second click with no \<open>arm()\<close> in between only starts the feedback
  animations: it emits no \<open>onPointSelected\<close> call, no warning, no error and no
  \<open>getSDTV\<close> call, and leaves the map as it is.
\<close>

theorem identify_is_single_shot:
  assumes m: "mapRef st = Some m"
  shows "\<exists>m2. mapRef (click p lib c1 settled1 (addIdentifyPointMode st)) = Some m2
           \<and> singleclick m2 = filter is_bound (singleclick m)
           \<and> (\<forall>g. VillageClickEvent g \<notin> set (singleclick m2))
           \<and> click p lib c2 settled2 (click p lib c1 settled1 (addIdentifyPointMode st))
               = (click p lib c1 settled1 (addIdentifyPointMode st))
                   \<lparr>emitted := emitted (click p lib c1 settled1 (addIdentifyPointMode st))
                                 @ map (\<lambda>_. PulseAnimation c2) (singleclick m2)\<rparr>"
proof -
  let ?st1 = "addIdentifyPointMode st"
  let ?st2 = "click p lib c1 settled1 ?st1"
  from arm_listeners [OF m] obtain m1 where m1: "mapRef ?st1 = Some m1"
    and same: "filter is_bound (singleclick m1) = filter is_bound (singleclick m)"
    by blast
  let ?m2 = "m1\<lparr>singleclick := filter is_bound (singleclick m1)\<rparr>"
  have m2: "mapRef ?st2 = Some ?m2"
    by (rule click_listeners [OF m1])
  have ls: "singleclick ?m2 = filter is_bound (singleclick m)"
    using same by simp
  have bound: "list_all is_bound (singleclick ?m2)"
    by (simp add: list_all_iff)
  then have none: "\<forall>g. VillageClickEvent g \<notin> set (singleclick ?m2)"
    by (auto simp: list_all_iff is_bound_def)
  have second: "click p lib c2 settled2 ?st2
                  = ?st2\<lparr>emitted := emitted ?st2 @ map (\<lambda>_. PulseAnimation c2) (singleclick ?m2)\<rparr>"
    by (rule click_unarmed [OF m2 bound])
  show ?thesis
    by (rule exI [of _ ?m2], intro conjI) (fact m2 ls none second)+
qed

text \<open>
  Arming, a click that finds a record, and a second click whose fetch would find it again:
  the second click adds the feedback animation and nothing else.
\<close>

theorem identify_second_click_is_silent:
  "emitted (click example_props example_library (7, 8) found
      (click example_props example_library (5, 6) found
         (addIdentifyPointMode (mounted [host_layer 0 ''Roads'' True] 2))))
    = [PulseAnimation (5, 6), PulseAnimation (5, 6), GetSDTV (5, 6), PointSelected village_record,
       PulseAnimation (7, 8)]
   \<and> (\<exists>m2. mapRef (click example_props example_library (5, 6) found
                  (addIdentifyPointMode (mounted [host_layer 0 ''Roads'' True] 2))) = Some m2
          \<and> singleclick m2 = [Bound])"
proof -
  let ?st = "mounted [host_layer 0 ''Roads'' True] 2"
  let ?m = "\<lparr> layers = [host_layer 0 ''Roads'' True], singleclick = [Bound] \<rparr>"
  let ?st2 = "click example_props example_library (5, 6) found (addIdentifyPointMode ?st)"
  have m: "mapRef ?st = Some ?m" by (simp add: mounted_def)
  have first: "emitted ?st2
                 = [PulseAnimation (5, 6), PulseAnimation (5, 6), GetSDTV (5, 6), PointSelected village_record]"
    by (simp add: mounted_def addIdentifyPointMode_def on_singleclick_def click_def villageClick_def
          handlePulseAnimation_def emit_def found_def example_props_def example_library_def Let_def)
  from identify_is_single_shot [OF m, of example_props example_library "(5, 6)" found "(7, 8)" found]
  obtain m2 where m2: "mapRef ?st2 = Some m2"
    and ls: "singleclick m2 = filter is_bound (singleclick ?m)"
    and second: "click example_props example_library (7, 8) found ?st2
                   = ?st2\<lparr>emitted := emitted ?st2 @ map (\<lambda>_. PulseAnimation (7, 8)) (singleclick m2)\<rparr>"
    by blast
  from ls have bound: "singleclick m2 = [Bound]" by (simp add: is_bound_def)
  have "emitted (click example_props example_library (7, 8) found ?st2)
          = emitted ?st2 @ map (\<lambda>_. PulseAnimation (7, 8)) (singleclick m2)"
    by (subst second) simp
  with first bound have events: "emitted (click example_props example_library (7, 8) found ?st2)
          = [PulseAnimation (5, 6), PulseAnimation (5, 6), GetSDTV (5, 6), PointSelected village_record,
             PulseAnimation (7, 8)]"
    by simp
  from m2 bound have "\<exists>m2. mapRef ?st2 = Some m2 \<and> singleclick m2 = [Bound]" by blast
  with events show ?thesis by (rule conjI)
qed

section \<open>Properties of the legend builder\<close>

lemma createObjectURL_nonempty: "createObjectURL lib blob \<noteq> []"
  by (simp add: createObjectURL_def)

lemma push_promises_step:
  "push_promises p lib (lyr # rest) promises =
     push_promises p lib rest
       (promises @ (case legend_endpoint lyr of
                      None \<Rightarrow> []
                    | Some (url, ident) \<Rightarrow> [legend_promise p lib (makeLegendUrl p url ident)]))"
  by (simp add: legend_endpoint_def split: option.splits list.splits)

lemma settled_entries:
  "filter (\<lambda>u. u \<noteq> [])
     (case legend_endpoint lyr of
        None \<Rightarrow> []
      | Some (url, ident) \<Rightarrow> [legend_promise p lib (makeLegendUrl p url ident)])
   = (case legend_entry p lib lyr of None \<Rightarrow> [] | Some u \<Rightarrow> [u])"
  by (simp add: legend_entry_def legend_promise_def createObjectURL_nonempty
        split: option.splits sum.splits)

lemma push_promises_entries:
  "filter (\<lambda>u. u \<noteq> []) (push_promises p lib ls promises)
     = filter (\<lambda>u. u \<noteq> []) promises @ List.map_filter (legend_entry p lib) ls"
proof (induction ls arbitrary: promises)
  case Nil
  then show ?case by (simp add: List.map_filter_def)
next
  case (Cons lyr rest)
  show ?case
    unfolding push_promises_step Cons.IH
    by (simp add: settled_entries del: push_promises.simps split: option.splits)
qed

lemma map_filter_without:
  "f y = None \<Longrightarrow> List.map_filter f (filter (\<lambda>x. x \<noteq> y) xs) = List.map_filter f xs"
  by (induction xs) (auto split: option.splits)

lemma length_map_filter: "length (List.map_filter f xs) = length (filter (\<lambda>x. f x \<noteq> None) xs)"
  by (induction xs) (auto split: option.splits)

lemma filter_visible_without:
  "filter visible (filter (\<lambda>l. l \<noteq> lyr) ls) = filter (\<lambda>l. l \<noteq> lyr) (filter visible ls)"
  by (induction ls) auto

text \<open>
  Claim C7. On a mounted map, the legend rebuild replaces the displayed list by the list
  of the specification: one entry for each visible layer that exposes a layer identifier
  and a source URL and whose legend fetch succeeded, in the order of the visible layers.
  Nothing of the list displayed before is kept and no other part of the state changes.
  A layer without identifier or URL, or whose fetch rejected, has no entry, and the list is
  the same as if that layer were not on the map.
\<close>

theorem legend_rebuild_matches_spec:
  assumes m: "mapRef st = Some m"
  shows "buildLegendsForVisibleWmsLayers p lib st
           = st\<lparr>legendUrls := legend_entries_spec p lib (layers m)\<rparr>
       \<and> length (legend_entries_spec p lib (layers m))
           = length (filter (\<lambda>lyr. visible lyr \<and> legend_entry p lib lyr \<noteq> None) (layers m))
       \<and> (\<forall>lyr. legend_entry p lib lyr = None \<longrightarrow>
             legend_entries_spec p lib (filter (\<lambda>l. l \<noteq> lyr) (layers m))
               = legend_entries_spec p lib (layers m))"
proof (intro conjI allI impI)
  have "filter (\<lambda>u. u \<noteq> []) (push_promises p lib (filter visible (layers m)) [])
          = legend_entries_spec p lib (layers m)"
    by (simp add: push_promises_entries legend_entries_spec_def)
  with m show "buildLegendsForVisibleWmsLayers p lib st
                 = st\<lparr>legendUrls := legend_entries_spec p lib (layers m)\<rparr>"
    by (simp add: buildLegendsForVisibleWmsLayers_def getAllLayers_def Let_def)
next
  show "length (legend_entries_spec p lib (layers m))
          = length (filter (\<lambda>lyr. visible lyr \<and> legend_entry p lib lyr \<noteq> None) (layers m))"
    by (simp add: legend_entries_spec_def length_map_filter conj_commute)
next
  fix lyr assume "legend_entry p lib lyr = None"
  then show "legend_entries_spec p lib (filter (\<lambda>l. l \<noteq> lyr) (layers m))
               = legend_entries_spec p lib (layers m)"
    unfolding legend_entries_spec_def filter_visible_without by (rule map_filter_without)
qed

text \<open>
  Five layers: a visible one with legend, one whose fetch rejects, one without identifier,
  a hidden one, and a second visible one with legend. The list shown before is dropped.
\<close>

theorem legend_rebuild_partial_failure:
  "legendUrls (buildLegendsForVisibleWmsLayers
      (example_props\<lparr>buildLegendBlob := (\<lambda>u. if u = ''b?REQUEST=GetLegendGraphic&layer=rivers&format=image/png''
                                              then Inl failed_fetch else Inr u)\<rparr>)
      example_library
      ((mounted [wms_layer 0 ''Roads'' True (Some ''roads'') (Some [''a'']),
                 wms_layer 2 ''Rivers'' True (Some ''rivers'') (Some [''b'']),
                 wms_layer 3 ''Aerial'' True None (Some [''c'']),
                 wms_layer 4 ''Parcels'' False (Some ''parcels'') (Some [''d'']),
                 wms_layer 5 ''Birth'' True (Some ''birth'') (Some [''e'', ''f''])] 6)
         \<lparr>legendUrls := [''blob:stale'']\<rparr>))
   = [''blob:a?REQUEST=GetLegendGraphic&layer=roads&format=image/png'',
      ''blob:e?REQUEST=GetLegendGraphic&layer=birth&format=image/png'']"
proof -
  let ?p = "example_props\<lparr>buildLegendBlob := (\<lambda>u. if u = ''b?REQUEST=GetLegendGraphic&layer=rivers&format=image/png''
                                              then Inl failed_fetch else Inr u)\<rparr>"
  let ?ls = "[wms_layer 0 ''Roads'' True (Some ''roads'') (Some [''a'']),
                 wms_layer 2 ''Rivers'' True (Some ''rivers'') (Some [''b'']),
                 wms_layer 3 ''Aerial'' True None (Some [''c'']),
                 wms_layer 4 ''Parcels'' False (Some ''parcels'') (Some [''d'']),
                 wms_layer 5 ''Birth'' True (Some ''birth'') (Some [''e'', ''f''])]"
  let ?st = "(mounted ?ls 6)\<lparr>legendUrls := [''blob:stale'']\<rparr>"
  have m: "mapRef ?st = Some \<lparr> layers = ?ls, singleclick = [Bound] \<rparr>"
    by (simp add: mounted_def)
  have spec: "legend_entries_spec ?p example_library ?ls
                = [''blob:a?REQUEST=GetLegendGraphic&layer=roads&format=image/png'',
                   ''blob:e?REQUEST=GetLegendGraphic&layer=birth&format=image/png'']"
    by (simp add: legend_entries_spec_def legend_entry_def legend_endpoint_def wms_layer_def
          host_layer_def source_urls_def source_LAYERS_def createObjectURL_def
          example_props_def example_library_def List.map_filter_def)
  from legend_rebuild_matches_spec [OF m, of ?p example_library]
  have "buildLegendsForVisibleWmsLayers ?p example_library ?st
          = ?st\<lparr>legendUrls := legend_entries_spec ?p example_library ?ls\<rparr>"
    by simp
  then have "legendUrls (buildLegendsForVisibleWmsLayers ?p example_library ?st)
               = legend_entries_spec ?p example_library ?ls"
    by simp
  with spec show ?thesis by simp
qed

section \<open>The discipline of object identities\<close>

lemma fresh_ids_allocated: "fresh_ids st = (case mapRef st of None \<Rightarrow> True | Some m \<Rightarrow> allocated (next_id st) (layers m))"
  by (simp add: fresh_ids_def allocated_def split: option.splits)

lemma allocated_mono: "allocated n ls \<Longrightarrow> n \<le> k \<Longrightarrow> allocated k ls"
  by (fastforce simp: allocated_def list_all_iff)

lemma lid_remove_object: "map lid (remove_object i ls) = remove1 i (map lid ls)"
  by (induction ls) auto

lemma allocated_remove_object: "allocated n ls \<Longrightarrow> allocated n (remove_object i ls)"
  using set_remove_object [of i ls]
  by (auto simp: allocated_def list_all_iff lid_remove_object)

lemma lid_clear_source: "lid (clear_source i lyr) = lid lyr"
  by (simp add: clear_source_def split: option.splits source.splits)

lemma allocated_clear_source: "allocated n ls \<Longrightarrow> allocated n (map (clear_source i) ls)"
  by (auto simp: allocated_def list_all_iff lid_clear_source filters_clear_source comp_def)

lemma allocated_retire_boundary:
  "allocated n (layers m) \<Longrightarrow> allocated n (layers (retire_boundary held m))"
  by (cases held)
     (simp_all add: retire_boundary_def removeLayer_def allocated_remove_object allocated_clear_source)

lemma allocated_snoc:
  "allocated n ls \<Longrightarrow> lid l = n \<Longrightarrow> filters l = [] \<Longrightarrow> allocated (Suc n) (ls @ [l])"
  by (fastforce simp: allocated_def list_all_iff less_Suc_eq)

lemma lid_mask_layer: "lid (mask_layer lib skip old crop lyr) = lid lyr"
  by (simp add: mask_layer_def split: option.splits)

lemma filters_mask_layer:
  assumes "\<forall>fs kept. removeFilter lib old fs = Some kept \<longrightarrow> set kept \<subseteq> set fs"
  shows "set (filters (mask_layer lib skip old crop lyr)) \<subseteq> insert crop (set (filters lyr))"
  using assms by (auto simp: mask_layer_def split: option.splits)

lemma allocated_mask:
  assumes sub: "\<forall>fs kept. removeFilter lib old fs = Some kept \<longrightarrow> set kept \<subseteq> set fs"
      and a: "allocated n ls" and c: "fid crop < n"
  shows "allocated n (map (mask_layer lib skip old crop) ls)"
proof -
  have "fid f < n" if "l \<in> set ls" and "f \<in> set (filters (mask_layer lib skip old crop l))" for l f
  proof -
    from that(2) filters_mask_layer [OF sub] have "f = crop \<or> f \<in> set (filters l)" by blast
    with a c that(1) show ?thesis by (auto simp: allocated_def list_all_iff)
  qed
  with a show ?thesis
    by (auto simp: allocated_def list_all_iff lid_mask_layer comp_def)
qed

text \<open>
  \<open>clip\<close> keeps the discipline of identities, for a library whose \<open>removeFilter\<close>
  returns only filters that were on the list; the rebuild effect keeps it as well (see
  \<open>refresh_nonempty\<close>).
\<close>

lemma fresh_ids_clip:
  assumes sub: "\<forall>old fs kept. removeFilter lib old fs = Some kept \<longrightarrow> set kept \<subseteq> set fs"
      and fresh: "fresh_ids st"
  shows "fresh_ids (snd (clip p lib settled st))"
proof (cases "mapRef st")
  case None
  with fresh show ?thesis by (simp add: clip_def)
next
  case (Some m)
  let ?n = "next_id st"
  let ?m1 = "retire_boundary (clippedBoundary st) m"
  from Some fresh have "allocated ?n (layers m)" by (simp add: fresh_ids_allocated)
  then have a1: "allocated ?n (layers ?m1)" by (rule allocated_retire_boundary)
  have early: "fresh_ids (st\<lparr>mapRef := Some ?m1, clippedBoundary := held_cleared (clippedBoundary st)\<rparr>)"
    using a1 by (simp add: fresh_ids_allocated)
  show ?thesis
  proof (cases settled)
    case (Inl e)
    with Some early show ?thesis by (simp add: clip_def Let_def)
  next
    case (Inr res)
    show ?thesis
    proof (cases "readFeatures lib (geojson_text res)")
      case (Inl e)
      with Some Inr early show ?thesis by (simp add: clip_def Let_def)
    next
      case feats: (Inr feats)
      have a2: "allocated (Suc ?n) (layers ?m1 @ [outline_layer st feats])"
        using a1 by (rule allocated_snoc) (simp_all add: outline_layer_def)
      show ?thesis
      proof (cases "last_coordinates feats (Some [])")
        case None
        with Some Inr feats a2 show ?thesis
          by (simp add: clip_def Let_def fresh_ids_allocated addLayer_def outline_layer_def)
      next
        case coords: (Some coords)
        from a2 have "allocated (Suc (Suc ?n)) (layers ?m1 @ [outline_layer st feats])"
          by (rule allocated_mono) simp
        then have "allocated (Suc (Suc ?n))
                     (map (mask_layer lib (skipClipLayerNames p) (navigationCropFilter st) (new_crop st coords))
                        (layers ?m1 @ [outline_layer st feats]))"
          using sub by (intro allocated_mask) (auto simp: new_crop_def)
        then show ?thesis
          unfolding Inr clip_resolved [OF Some feats coords]
          by (simp add: fresh_ids_allocated clip_mask_def layers_outlined)
      qed
    qed
  qed
qed

end
